theory Spec2Isabelle
  imports Main "HOL-Library.Sublist" "HOL-Library.Word"
begin

unbundle bit_operations_syntax

section \<open>JavaScript strings\<close>

text \<open>
  A JavaScript string is modelled by the list of the bytes of its UTF-8 encoding
  (\<open>string\<close>).  The falsy strings of JavaScript are \<open>undefined\<close>/\<open>null\<close>
  (\<open>None\<close> where a value may be absent) and the empty string.
  \<open>startsWith\<close>, \<open>endsWith\<close> and \<open>includes\<close> (here \<open>includesStr\<close>) are \<open>prefix\<close>, \<open>suffix\<close> and
  \<open>sublist\<close>.  Every string that the code lower-cases is a host name produced by
  the URL parser, which is ASCII, so \<open>toLowerCase\<close> maps the letters A-Z and
  leaves every other byte alone.
\<close>

definition lower_char :: "char \<Rightarrow> char" where
  "lower_char c =
     (case map_of (zip ''ABCDEFGHIJKLMNOPQRSTUVWXYZ'' ''abcdefghijklmnopqrstuvwxyz'') c of
        None \<Rightarrow> c
      | Some l \<Rightarrow> l)"

definition toLowerCase :: "string \<Rightarrow> string" where
  "toLowerCase s = map lower_char s"

definition startsWith :: "string \<Rightarrow> string \<Rightarrow> bool" where
  "startsWith s p = prefix p s"

definition endsWith :: "string \<Rightarrow> string \<Rightarrow> bool" where
  "endsWith s p = suffix p s"

definition includesStr :: "string \<Rightarrow> string \<Rightarrow> bool" where
  "includesStr s p = sublist p s"

section \<open>The platform: URL parser and ipaddr.js\<close>

text \<open>
  \<open>URL.parse\<close>, \<open>new URL(location, base).href\<close> and the package ipaddr.js are
  not code of the repository.  The functions of \<open>image-proxy.ts\<close> and of the
  handler take them as a parameter, so that the general theorems hold for every
  URL parser and every address classifier.
  \<^item> \<open>url_parse u\<close> is \<open>URL.parse(u)\<close>: \<open>None\<close> is \<open>null\<close>; of the URL object the
    code reads \<open>protocol\<close> and \<open>hostname\<close> only.
  \<^item> \<open>url_resolve location base\<close> is \<open>new URL(location, base).href\<close>; \<open>None\<close> is
    the \<open>TypeError\<close> of the constructor.
  \<^item> \<open>ipaddr_isValid s\<close> is \<open>ipaddr.isValid(s)\<close>.
  \<^item> \<open>ipaddr_range s\<close> is \<open>ipaddr.process(s).range()\<close>, read only where
    \<open>ipaddr_isValid s\<close> holds.
\<close>

record parsed_url =
  protocol :: string
  hostname :: string

record platform =
  url_parse :: "string \<Rightarrow> parsed_url option"
  url_resolve :: "string \<Rightarrow> string \<Rightarrow> string option"
  ipaddr_isValid :: "string \<Rightarrow> bool"
  ipaddr_range :: "string \<Rightarrow> string"

section \<open>The network\<close>

text \<open>
  DNS and HTTP are the outside world.  Every call to \<open>lookup\<close>, \<open>fetch\<close> and
  \<open>response.body.cancel()\<close> is appended to a trace; the world answers a call
  from the trace of the calls before it, so that it may answer the same question
  differently each time (DNS rebinding, a URL that redirects only once).
\<close>

datatype io_action = DnsLookup string | HttpFetch string | BodyCancel

type_synonym trace = "io_action list"

text \<open>The result of \<open>lookup(hostname, { all: true })\<close>: the promise rejects, or it
  yields the \<open>address\<close> fields of the records.\<close>

datatype dns_result = LookupFails | LookupAddresses "string list"

type_synonym chunk = "8 word list"

datatype upstream_end = EndOfBody | BodyError string

text \<open>A response body is the list of the chunks that the upstream stream will emit
  as \<open>data\<close> events and the event that follows them (\<open>end\<close> or \<open>error\<close>).\<close>

record body_stream =
  chunks :: "chunk list"
  ending :: upstream_end

text \<open>Of a \<open>Response\<close> the handler reads \<open>status\<close>, three headers (\<open>None\<close> is the
  \<open>null\<close> of \<open>headers.get\<close>) and \<open>body\<close> (\<open>None\<close> is \<open>null\<close>).\<close>

record response =
  status :: nat
  location :: "string option"
  content_type :: "string option"
  content_length :: "string option"
  body :: "body_stream option"

datatype fetch_result = FetchThrows | FetchResponse response

record world =
  dns_lookup :: "trace \<Rightarrow> string \<Rightarrow> dns_result"
  http_fetch :: "trace \<Rightarrow> string \<Rightarrow> fetch_result"

section \<open>node:crypto: HMAC-SHA-256\<close>

text \<open>
  \<open>createHmac('sha256', secret).update(url).digest('hex')\<close> is a fixed function of
  its two strings: SHA-256 (FIPS 180-4) inside the HMAC construction (RFC 2104,
  FIPS 198-1), printed as lower-case hexadecimal.  It is written out so that
  \<open>signImageUrl\<close> is the function the code computes.
\<close>

type_synonym u32 = "32 word"

definition rotr :: "nat \<Rightarrow> u32 \<Rightarrow> u32" where
  "rotr n x = drop_bit n x OR push_bit (32 - n) x"

definition Ch :: "u32 \<Rightarrow> u32 \<Rightarrow> u32 \<Rightarrow> u32" where
  "Ch x y z = (x AND y) XOR (NOT x AND z)"

definition Maj :: "u32 \<Rightarrow> u32 \<Rightarrow> u32 \<Rightarrow> u32" where
  "Maj x y z = (x AND y) XOR (x AND z) XOR (y AND z)"

definition Sigma0 :: "u32 \<Rightarrow> u32" where
  "Sigma0 x = rotr 2 x XOR rotr 13 x XOR rotr 22 x"

definition Sigma1 :: "u32 \<Rightarrow> u32" where
  "Sigma1 x = rotr 6 x XOR rotr 11 x XOR rotr 25 x"

definition sigma0 :: "u32 \<Rightarrow> u32" where
  "sigma0 x = rotr 7 x XOR rotr 18 x XOR drop_bit 3 x"

definition sigma1 :: "u32 \<Rightarrow> u32" where
  "sigma1 x = rotr 17 x XOR rotr 19 x XOR drop_bit 10 x"

definition sha256_K :: "u32 list" where
  "sha256_K =
    [0x428A2F98, 0x71374491, 0xB5C0FBCF, 0xE9B5DBA5,
     0x3956C25B, 0x59F111F1, 0x923F82A4, 0xAB1C5ED5,
     0xD807AA98, 0x12835B01, 0x243185BE, 0x550C7DC3,
     0x72BE5D74, 0x80DEB1FE, 0x9BDC06A7, 0xC19BF174,
     0xE49B69C1, 0xEFBE4786, 0x0FC19DC6, 0x240CA1CC,
     0x2DE92C6F, 0x4A7484AA, 0x5CB0A9DC, 0x76F988DA,
     0x983E5152, 0xA831C66D, 0xB00327C8, 0xBF597FC7,
     0xC6E00BF3, 0xD5A79147, 0x06CA6351, 0x14292967,
     0x27B70A85, 0x2E1B2138, 0x4D2C6DFC, 0x53380D13,
     0x650A7354, 0x766A0ABB, 0x81C2C92E, 0x92722C85,
     0xA2BFE8A1, 0xA81A664B, 0xC24B8B70, 0xC76C51A3,
     0xD192E819, 0xD6990624, 0xF40E3585, 0x106AA070,
     0x19A4C116, 0x1E376C08, 0x2748774C, 0x34B0BCB5,
     0x391C0CB3, 0x4ED8AA4A, 0x5B9CCA4F, 0x682E6FF3,
     0x748F82EE, 0x78A5636F, 0x84C87814, 0x8CC70208,
     0x90BEFFFA, 0xA4506CEB, 0xBEF9A3F7, 0xC67178F2]"

type_synonym sha_state = "u32 \<times> u32 \<times> u32 \<times> u32 \<times> u32 \<times> u32 \<times> u32 \<times> u32"

definition sha256_init :: sha_state where
  "sha256_init =
    (0x6A09E667, 0xBB67AE85, 0x3C6EF372, 0xA54FF53A,
     0x510E527F, 0x9B05688C, 0x1F83D9AB, 0x5BE0CD19)"

text \<open>Big-endian words and lengths.\<close>

definition be32 :: "chunk \<Rightarrow> u32" where
  "be32 bs = foldl (\<lambda>acc b. push_bit 8 acc OR ucast b) 0 (take 4 bs)"

definition bytes_of_u32 :: "u32 \<Rightarrow> chunk" where
  "bytes_of_u32 w = map (\<lambda>i. ucast (drop_bit (8 * i) w)) [3, 2, 1, 0]"

definition bytes_of_len :: "nat \<Rightarrow> chunk" where
  "bytes_of_len n = map (\<lambda>i. of_nat (n div 2 ^ (8 * i))) [7, 6, 5, 4, 3, 2, 1, 0]"

text \<open>Padding: the byte \<open>0x80\<close>, zeros up to 56 modulo 64, the bit length in 64 bits.\<close>

definition sha256_pad :: "chunk \<Rightarrow> chunk" where
  "sha256_pad m =
     m @ [0x80] @ replicate ((64 - (length m + 9) mod 64) mod 64) 0
       @ bytes_of_len (8 * length m)"

text \<open>The message schedule: sixteen words of the block, extended to sixty-four.\<close>

fun schedule_extend :: "nat \<Rightarrow> u32 list \<Rightarrow> u32 list" where
  "schedule_extend 0 ws = ws"
| "schedule_extend (Suc k) ws =
     (let n = length ws
      in schedule_extend k
           (ws @ [sigma1 (ws ! (n - 2)) + ws ! (n - 7) + sigma0 (ws ! (n - 15)) + ws ! (n - 16)]))"

definition schedule :: "chunk \<Rightarrow> u32 list" where
  "schedule block =
     schedule_extend 48 (map (\<lambda>i. be32 (drop (4 * i) block)) [0..<16])"

fun sha256_round :: "sha_state \<Rightarrow> u32 \<times> u32 \<Rightarrow> sha_state" where
  "sha256_round (a, b, c, d, e, f, g, h) (k, w) =
     (let t1 = h + Sigma1 e + Ch e f g + k + w;
          t2 = Sigma0 a + Maj a b c
      in (t1 + t2, a, b, c, d + t1, e, f, g))"

fun add_state :: "sha_state \<Rightarrow> sha_state \<Rightarrow> sha_state" where
  "add_state (a, b, c, d, e, f, g, h) (a', b', c', d', e', f', g', h') =
     (a + a', b + b', c + c', d + d', e + e', f + f', g + g', h + h')"

definition compress :: "sha_state \<Rightarrow> chunk \<Rightarrow> sha_state" where
  "compress hs block = add_state hs (foldl sha256_round hs (zip sha256_K (schedule block)))"

fun digest_bytes :: "sha_state \<Rightarrow> chunk" where
  "digest_bytes (a, b, c, d, e, f, g, h) = concat (map bytes_of_u32 [a, b, c, d, e, f, g, h])"

definition sha256 :: "chunk \<Rightarrow> chunk" where
  "sha256 m =
     (let p = sha256_pad m
      in digest_bytes
           (foldl (\<lambda>hs i. compress hs (take 64 (drop (64 * i) p))) sha256_init
              [0..<length p div 64]))"

text \<open>HMAC: a key longer than the block of 64 bytes is hashed first; the key is then
  filled with zero bytes up to the block.\<close>

definition hmac_key_block :: "chunk \<Rightarrow> chunk" where
  "hmac_key_block key =
     (let k0 = (if length key > 64 then sha256 key else key)
      in k0 @ replicate (64 - length k0) 0)"

definition hmac_sha256 :: "chunk \<Rightarrow> chunk \<Rightarrow> chunk" where
  "hmac_sha256 key msg =
     (let kb = hmac_key_block key
      in sha256 (map (\<lambda>b. b XOR 0x5c) kb @ sha256 (map (\<lambda>b. b XOR 0x36) kb @ msg)))"

definition hex_digit :: "nat \<Rightarrow> char" where
  "hex_digit n = ''0123456789abcdef'' ! (n mod 16)"

definition hex_encode :: "chunk \<Rightarrow> string" where
  "hex_encode bs = concat (map (\<lambda>b. [hex_digit (unat b div 16), hex_digit (unat b mod 16)]) bs)"

text \<open>The bytes of a string (its UTF-8 encoding).\<close>

definition bytes_of_string :: "string \<Rightarrow> chunk" where
  "bytes_of_string s = map (\<lambda>c. of_nat (of_char c)) s"

section \<open>server/utils/image-proxy.ts\<close>

definition TRUSTED_IMAGE_DOMAINS :: "string list" where
  "TRUSTED_IMAGE_DOMAINS =
    [''npmx.dev'',
     ''raw.githubusercontent.com'', ''github.com'', ''user-images.githubusercontent.com'',
     ''avatars.githubusercontent.com'', ''repository-images.githubusercontent.com'',
     ''github.githubassets.com'', ''objects.githubusercontent.com'',
     ''gitlab.com'',
     ''cdn.jsdelivr.net'', ''unpkg.com'',
     ''img.shields.io'', ''shields.io'', ''badge.fury.io'', ''badgen.net'',
     ''flat.badgen.net'', ''codecov.io'', ''coveralls.io'', ''david-dm.org'', ''snyk.io'',
     ''app.fossa.com'', ''api.codeclimate.com'', ''bundlephobia.com'',
     ''packagephobia.com'']"

definition isTrustedImageDomain :: "platform \<Rightarrow> string \<Rightarrow> bool" where
  "isTrustedImageDomain P url =
     (case url_parse P url of
        None \<Rightarrow> False
      | Some parsed \<Rightarrow>
          if hostname parsed = [] then False
          else
            (let h = toLowerCase (hostname parsed)
             in list_ex (\<lambda>domain. h = domain \<or> endsWith h (''.'' @ domain))
                  TRUSTED_IMAGE_DOMAINS))"

text \<open>\<open>ip.startsWith('[') && ip.endsWith(']') ? ip.slice(1, -1) : ip\<close>\<close>

definition strip_brackets :: "string \<Rightarrow> string" where
  "strip_brackets ip =
     (if startsWith ip ''['' \<and> endsWith ip '']'' then butlast (tl ip) else ip)"

definition isPrivateIP :: "platform \<Rightarrow> string \<Rightarrow> bool" where
  "isPrivateIP P ip =
     (let bare = strip_brackets ip
      in if \<not> ipaddr_isValid P bare then False
         else ipaddr_range P bare \<noteq> ''unicast'')"

definition isAllowedImageUrl :: "platform \<Rightarrow> string \<Rightarrow> bool" where
  "isAllowedImageUrl P url =
     (case url_parse P url of
        None \<Rightarrow> False
      | Some parsed \<Rightarrow>
          if protocol parsed \<noteq> ''http:'' \<and> protocol parsed \<noteq> ''https:'' then False
          else
            (let h = toLowerCase (hostname parsed)
             in if h = [] then False
                else if h = ''localhost'' \<or> endsWith h ''.local'' \<or> endsWith h ''.internal''
                  then False
                else if isPrivateIP P h then False
                else True))"

text \<open>The function returns its answer and the trace extended by the lookup, when it
  makes one.\<close>

definition resolveAndValidateHost :: "platform \<Rightarrow> world \<Rightarrow> trace \<Rightarrow> string \<Rightarrow> bool \<times> trace" where
  "resolveAndValidateHost P W t url =
     (case url_parse P url of
        None \<Rightarrow> (False, t)
      | Some parsed \<Rightarrow>
          if hostname parsed = [] then (False, t)
          else
            (let h = toLowerCase (hostname parsed);
                 bare = strip_brackets h
             in if ipaddr_isValid P bare then (\<not> isPrivateIP P bare, t)
                else
                  (case dns_lookup W t h of
                     LookupFails \<Rightarrow> (False, t @ [DnsLookup h])
                   | LookupAddresses results \<Rightarrow>
                       if length results = 0 then (False, t @ [DnsLookup h])
                       else (list_all (\<lambda>a. \<not> isPrivateIP P a) results,
                             t @ [DnsLookup h]))))"

definition signImageUrl :: "string \<Rightarrow> string \<Rightarrow> string" where
  "signImageUrl url secret =
     hex_encode (hmac_sha256 (bytes_of_string secret) (bytes_of_string url))"

definition verifyImageUrl :: "string \<Rightarrow> string \<Rightarrow> string \<Rightarrow> bool" where
  "verifyImageUrl url signature secret =
     (if signature = [] \<or> secret = [] then False
      else
        (let expected = signImageUrl url secret
         in length expected = length signature \<and> expected = signature))"

section \<open>The image-proxy event handler\<close>

text \<open>
  \<open>createError({ statusCode, message })\<close> is \<open>H3Error\<close>.  Every other exception
  that can reach the \<open>catch\<close> of the handler (the \<open>TypeError\<close> of \<open>fetch\<close> and
  of \<open>new URL\<close>, the abort of \<open>AbortSignal.timeout\<close>) carries no \<open>statusCode\<close>
  and is \<open>Thrown\<close>.
\<close>

datatype failure = H3Error nat string | Thrown

text \<open>A query parameter of \<open>getQuery\<close> is a string or an array of strings.\<close>

datatype query_value = QString string | QArray "string list"

record query =
  q_url :: "query_value option"
  q_sig :: "query_value option"

text \<open>\<open>Array.isArray(v) ? v[0] : v\<close>\<close>

fun first_value :: "query_value option \<Rightarrow> string option" where
  "first_value None = None"
| "first_value (Some (QString s)) = Some s"
| "first_value (Some (QArray [])) = None"
| "first_value (Some (QArray (x # xs))) = Some x"

text \<open>The runtime configuration and the constant of \<open>#shared/utils/constants\<close>, which
  is not among the sources: both are parameters of the handler.  A secret that is not
  configured is the empty string.\<close>

record config =
  imageProxySecret :: string
  CACHE_MAX_AGE_ONE_DAY :: nat

text \<open>The timeout of a fetch, in milliseconds.  Time is not modelled: a fetch that
  runs into the timeout is a fetch that throws.\<close>

definition FETCH_TIMEOUT_MS :: nat where
  "FETCH_TIMEOUT_MS = 15000"

definition MAX_SIZE :: nat where
  "MAX_SIZE = 10 * 1024 * 1024"

definition MAX_REDIRECTS :: nat where
  "MAX_REDIRECTS = 5"

definition REDIRECT_STATUSES :: "nat set" where
  "REDIRECT_STATUSES = {301, 302, 303, 307, 308}"

text \<open>\<open>response.ok\<close>\<close>

definition response_ok :: "response \<Rightarrow> bool" where
  "response_ok r = (200 \<le> status r \<and> status r \<le> 299)"

text \<open>Decimal numerals, for the template string with \<open>response.status\<close> and for
  \<open>max-age\<close>.\<close>

definition digit_char :: "nat \<Rightarrow> char" where
  "digit_char n = ''0123456789'' ! (n mod 10)"

fun show_nat :: "nat \<Rightarrow> string" where
  "show_nat n = (if n < 10 then [digit_char n] else show_nat (n div 10) @ [digit_char n])"

text \<open>
  \<open>Number.parseInt(s, 10)\<close>: white space is skipped, a sign is read, then the
  longest run of decimal digits; \<open>None\<close> is \<open>NaN\<close>.  JavaScript rounds the value
  to a double; rounding is monotone and \<open>MAX_SIZE\<close> and \<open>MAX_SIZE + 1\<close> are
  doubles, so the comparison with \<open>MAX_SIZE\<close> is the one of the integers.
\<close>

definition is_space :: "char \<Rightarrow> bool" where
  "is_space c = (c \<in> {CHR '' '', CHR 0x09, CHR 0x0A, CHR 0x0B, CHR 0x0C, CHR 0x0D})"

definition is_digit :: "char \<Rightarrow> bool" where
  "is_digit c = (48 \<le> (of_char c :: nat) \<and> (of_char c :: nat) \<le> 57)"

definition decimal_value :: "string \<Rightarrow> nat" where
  "decimal_value ds = foldl (\<lambda>acc c. 10 * acc + (of_char c - 48)) 0 ds"

definition parseInt10 :: "string \<Rightarrow> int option" where
  "parseInt10 s =
     (let s1 = dropWhile is_space s;
          negative = (case s1 of [] \<Rightarrow> False | c # _ \<Rightarrow> c = CHR ''-'');
          s2 = (case s1 of [] \<Rightarrow> [] | c # r \<Rightarrow> if c = CHR ''-'' \<or> c = CHR ''+'' then r else s1);
          ds = takeWhile is_digit s2
      in if ds = [] then None
         else Some ((if negative then - 1 else 1) * int (decimal_value ds)))"

text \<open>\<open>contentLength && Number.parseInt(contentLength, 10) > MAX_SIZE\<close>\<close>

definition declared_too_large :: "string option \<Rightarrow> bool" where
  "declared_too_large h =
     (case h of
        None \<Rightarrow> False
      | Some cl \<Rightarrow>
          if cl = [] then False
          else (case parseInt10 cl of None \<Rightarrow> False | Some n \<Rightarrow> n > int MAX_SIZE))"

text \<open>\<open>await response.body?.cancel()\<close>\<close>

definition cancel_body :: "response \<Rightarrow> trace \<Rightarrow> trace" where
  "cancel_body r t = (case body r of None \<Rightarrow> t | Some b \<Rightarrow> t @ [BodyCancel])"

text \<open>
  The loop \<open>for (let i = 0; i <= MAX_REDIRECTS; i++)\<close>, from the state at the head of
  an iteration: the counter, \<open>currentUrl\<close>, \<open>response\<close> and the trace.  It returns
  \<open>response\<close> as the loop leaves it, or the exception thrown inside it.
\<close>

function redirect_loop ::
  "platform \<Rightarrow> world \<Rightarrow> nat \<Rightarrow> string \<Rightarrow> response option \<Rightarrow> trace
     \<Rightarrow> (failure + response option) \<times> trace" where
  "redirect_loop P W i currentUrl resp t =
     (if i \<le> MAX_REDIRECTS then
        (case http_fetch W t currentUrl of
           FetchThrows \<Rightarrow> (Inl Thrown, t @ [HttpFetch currentUrl])
         | FetchResponse r \<Rightarrow>
             (let t1 = t @ [HttpFetch currentUrl]
              in if status r \<notin> REDIRECT_STATUSES then (Inr (Some r), t1)
                 else
                   (case location r of
                      None \<Rightarrow> (Inr (Some r), t1)
                    | Some loc \<Rightarrow>
                        if loc = [] then (Inr (Some r), t1)
                        else
                          (case url_resolve P loc currentUrl of
                             None \<Rightarrow> (Inl Thrown, t1)
                           | Some redirectUrl \<Rightarrow>
                               if \<not> isAllowedImageUrl P redirectUrl
                               then (Inl (H3Error 400 ''Redirect to disallowed URL.''), t1)
                               else
                                 (case resolveAndValidateHost P W t1 redirectUrl of
                                    (valid, t2) \<Rightarrow>
                                      if \<not> valid
                                      then (Inl (H3Error 400 ''Redirect to disallowed URL.''), t2)
                                      else redirect_loop P W (i + 1) redirectUrl (Some r)
                                             (cancel_body r t2))))))
      else (Inr resp, t))"
  by pat_completeness auto
termination
  by (relation "measure (\<lambda>(P, W, i, u, r, t). Suc MAX_REDIRECTS - i)") auto

declare redirect_loop.simps [simp del]

text \<open>What \<open>sendStream(event, limited)\<close> is given: the response headers set by
  \<open>setResponseHeaders\<close> and the upstream body behind the relay.\<close>

record proxied =
  response_headers :: "(string \<times> string) list"
  upstream_body :: body_stream

definition quoted :: "string \<Rightarrow> string" where
  "quoted s = [CHR 0x27] @ s @ [CHR 0x27]"

definition dquoted :: "string \<Rightarrow> string" where
  "dquoted s = [CHR 0x22] @ s @ [CHR 0x22]"

text \<open>The message \<open>Missing required "name" query parameter.\<close>\<close>

definition missing_parameter :: "string \<Rightarrow> string" where
  "missing_parameter name = ''Missing required '' @ dquoted name @ '' query parameter.''"

definition success_headers :: "config \<Rightarrow> string \<Rightarrow> (string \<times> string) list" where
  "success_headers C contentType =
     [(''Content-Type'', contentType),
      (''Cache-Control'',
         ''public, max-age='' @ show_nat (CACHE_MAX_AGE_ONE_DAY C) @ '', s-maxage=''
           @ show_nat (CACHE_MAX_AGE_ONE_DAY C)),
      (''X-Content-Type-Options'', ''nosniff''),
      (''Content-Security-Policy'',
         ''default-src '' @ quoted ''none'' @ ''; style-src '' @ quoted ''unsafe-inline'')]"

text \<open>\<open>response.headers.get('content-type') || 'application/octet-stream'\<close>\<close>

definition contentType_of :: "response \<Rightarrow> string" where
  "contentType_of r =
     (case content_type r of
        None \<Rightarrow> ''application/octet-stream''
      | Some c \<Rightarrow> if c = [] then ''application/octet-stream'' else c)"

text \<open>The statements of the \<open>try\<close> block after the loop.\<close>

definition after_loop :: "config \<Rightarrow> response option \<Rightarrow> trace \<Rightarrow> (failure + proxied) \<times> trace" where
  "after_loop C resp t =
     (case resp of
        None \<Rightarrow> (Inl (H3Error 502 ''Failed to fetch image.''), t)
      | Some r \<Rightarrow>
          if status r \<in> REDIRECT_STATUSES
          then (Inl (H3Error 502 ''Too many redirects.''), cancel_body r t)
          else if \<not> response_ok r
          then (Inl (H3Error (if status r = 404 then 404 else 502)
                       (''Failed to fetch image: '' @ show_nat (status r))), cancel_body r t)
          else
            (let contentType = contentType_of r
             in if \<not> startsWith contentType ''image/'' \<or> includesStr contentType ''svg''
                then (Inl (H3Error 400 ''URL does not point to an allowed image type.''),
                      cancel_body r t)
                else if declared_too_large (content_length r)
                then (Inl (H3Error 413 ''Image too large.''), cancel_body r t)
                else
                  (case body r of
                     None \<Rightarrow> (Inl (H3Error 502 ''No response body from upstream.''), t)
                   | Some b \<Rightarrow>
                       (Inr \<lparr>response_headers = success_headers C contentType,
                             upstream_body = b\<rparr>, t))))"

text \<open>The \<open>try\<close> block and its \<open>catch\<close>: an error with a \<open>statusCode\<close> is thrown
  again, any other becomes the 502 of the handler.\<close>

definition try_block ::
  "platform \<Rightarrow> world \<Rightarrow> config \<Rightarrow> string \<Rightarrow> trace \<Rightarrow> (failure + proxied) \<times> trace" where
  "try_block P W C url t =
     (case redirect_loop P W 0 url None t of
        (Inl e, t') \<Rightarrow> (Inl e, t')
      | (Inr resp, t') \<Rightarrow> after_loop C resp t')"

definition catch_block :: "(failure + proxied) \<times> trace \<Rightarrow> (failure + proxied) \<times> trace" where
  "catch_block res =
     (case res of
        (Inl (H3Error code msg), t) \<Rightarrow> (Inl (H3Error code msg), t)
      | (Inl Thrown, t) \<Rightarrow> (Inl (H3Error 502 ''Failed to proxy image.''), t)
      | (Inr v, t) \<Rightarrow> (Inr v, t))"

text \<open>The handler returns what it answers and the trace of its calls to the network,
  in the order it makes them.\<close>

definition handler ::
  "platform \<Rightarrow> world \<Rightarrow> config \<Rightarrow> query \<Rightarrow> (failure + proxied) \<times> trace" where
  "handler P W C q =
     (case first_value (q_url q) of
        None \<Rightarrow> (Inl (H3Error 400 (missing_parameter ''url'')), [])
      | Some url \<Rightarrow>
          if url = []
          then (Inl (H3Error 400 (missing_parameter ''url'')), [])
          else
            (case first_value (q_sig q) of
               None \<Rightarrow> (Inl (H3Error 400 (missing_parameter ''sig'')), [])
             | Some sig \<Rightarrow>
                 if sig = []
                 then (Inl (H3Error 400 (missing_parameter ''sig'')), [])
                 else if imageProxySecret C = [] \<or> \<not> verifyImageUrl url sig (imageProxySecret C)
                 then (Inl (H3Error 403 ''Invalid signature.''), [])
                 else if \<not> isAllowedImageUrl P url
                 then (Inl (H3Error 400 ''Invalid or disallowed image URL.''), [])
                 else
                   (case resolveAndValidateHost P W [] url of
                      (valid, t) \<Rightarrow>
                        if \<not> valid
                        then (Inl (H3Error 400 ''Invalid or disallowed image URL.''), t)
                        else catch_block (try_block P W C url t))))"

section \<open>The bounded streaming relay\<close>

text \<open>
  The relay is the pair of Node streams \<open>upstream\<close> (made from the response body) and
  \<open>limited\<close> (given to \<open>sendStream\<close>), with the three listeners of the handler.
  Its state holds the counter \<open>bytesRead\<close>, what \<open>upstream\<close> has still to emit,
  whether \<open>upstream\<close> is flowing, what \<open>limited\<close> holds (pushed and not yet read)
  and what the consumer has read.  \<open>highWaterMark\<close> is the buffer size of \<open>limited\<close>
  (Node's default, which depends on the version): \<open>limited.push(chunk)\<close> returns
  \<open>true\<close> while the buffer is below it or empty, and \<open>false\<close> once the buffer has
  reached it.
\<close>

datatype upstream_status = Active | UpstreamEnded | UpstreamErrored | UpstreamDestroyed

datatype limited_status = Open | Ended | Destroyed string

record relay =
  highWaterMark :: nat
  bytesRead :: nat
  to_emit :: "chunk list"
  closing :: upstream_end
  flowing :: bool
  upstream_state :: upstream_status
  buffered :: "chunk list"
  limited_state :: limited_status
  delivered :: "chunk list"

definition total_bytes :: "chunk list \<Rightarrow> nat" where
  "total_bytes cs = sum_list (map length cs)"

text \<open>The state when the handler returns: the listeners are attached, which starts
  the flow of \<open>upstream\<close>; nothing has been read.\<close>

definition relay_start :: "nat \<Rightarrow> body_stream \<Rightarrow> relay" where
  "relay_start hwm b =
     \<lparr>highWaterMark = hwm, bytesRead = 0, to_emit = chunks b, closing = ending b,
      flowing = True, upstream_state = Active, buffered = [], limited_state = Open,
      delivered = []\<rparr>"

text \<open>\<open>upstream.on('data', ...)\<close>\<close>

definition on_data :: "chunk \<Rightarrow> relay \<Rightarrow> relay" where
  "on_data c st =
     (let st1 = st\<lparr>bytesRead := bytesRead st + length c\<rparr>
      in if bytesRead st1 > MAX_SIZE
         then st1\<lparr>upstream_state := UpstreamDestroyed,
                  limited_state := Destroyed ''Image too large''\<rparr>
         else
           (let st2 = st1\<lparr>buffered := buffered st1 @ [c]\<rparr>
            in if \<not> (total_bytes (buffered st2) < highWaterMark st2
                      \<or> total_bytes (buffered st2) = 0)
               then st2\<lparr>flowing := False\<rparr>
               else st2))"

text \<open>\<open>upstream.on('end', () => limited.push(null))\<close>\<close>

definition on_end :: "relay \<Rightarrow> relay" where
  "on_end st = st\<lparr>upstream_state := UpstreamEnded, limited_state := Ended\<rparr>"

text \<open>\<open>upstream.on('error', err => limited.destroy(err))\<close>\<close>

definition on_error :: "string \<Rightarrow> relay \<Rightarrow> relay" where
  "on_error err st = st\<lparr>upstream_state := UpstreamErrored, limited_state := Destroyed err\<rparr>"

text \<open>
  A schedule is the order in which the two sides take their turns.  On its turn an
  active, flowing \<open>upstream\<close> emits its next event: the next chunk, or \<open>end\<close> or
  \<open>error\<close> after the last one; a paused, ended or destroyed stream emits nothing.
  On its turn the consumer takes what \<open>limited\<close> holds and, while the stream is open,
  asks for more, which runs \<open>read()\<close> and so \<open>upstream.resume()\<close>; a destroyed
  stream hands nothing over.
\<close>

datatype turn = Upstream | Consumer

definition upstream_turn :: "relay \<Rightarrow> relay" where
  "upstream_turn st =
     (if upstream_state st = Active \<and> flowing st then
        (case to_emit st of
           c # cs \<Rightarrow> on_data c (st\<lparr>to_emit := cs\<rparr>)
         | [] \<Rightarrow> (case closing st of EndOfBody \<Rightarrow> on_end st | BodyError err \<Rightarrow> on_error err st))
      else st)"

definition consumer_turn :: "relay \<Rightarrow> relay" where
  "consumer_turn st =
     (case limited_state st of
        Destroyed err \<Rightarrow> st
      | Ended \<Rightarrow> st\<lparr>delivered := delivered st @ buffered st, buffered := []\<rparr>
      | Open \<Rightarrow> st\<lparr>delivered := delivered st @ buffered st, buffered := [], flowing := True\<rparr>)"

fun relay_step :: "relay \<Rightarrow> turn \<Rightarrow> relay" where
  "relay_step st Upstream = upstream_turn st"
| "relay_step st Consumer = consumer_turn st"

definition relay_run :: "nat \<Rightarrow> body_stream \<Rightarrow> turn list \<Rightarrow> relay" where
  "relay_run hwm b turns = foldl relay_step (relay_start hwm b) turns"

section \<open>server/utils/image-proxy.ts: proxied URLs\<close>

text \<open>\<open>encodeURIComponent\<close> on the bytes of the UTF-8 encoding: every byte but the
  unreserved characters is written \<open>%XX\<close> with upper-case digits.\<close>

definition uri_unreserved :: "char \<Rightarrow> bool" where
  "uri_unreserved c =
     (let n = (of_char c :: nat)
      in (65 \<le> n \<and> n \<le> 90) \<or> (97 \<le> n \<and> n \<le> 122) \<or> (48 \<le> n \<and> n \<le> 57)
         \<or> c \<in> set ''-_.!~*()'' \<or> c = CHR 0x27)"

definition upper_hex_digit :: "nat \<Rightarrow> char" where
  "upper_hex_digit n = ''0123456789ABCDEF'' ! (n mod 16)"

definition percent_byte :: "char \<Rightarrow> string" where
  "percent_byte c =
     [CHR ''%'', upper_hex_digit (of_char c div 16), upper_hex_digit (of_char c mod 16)]"

definition encodeURIComponent :: "string \<Rightarrow> string" where
  "encodeURIComponent s = concat (map (\<lambda>c. if uri_unreserved c then [c] else percent_byte c) s)"

definition toProxiedImageUrl :: "platform \<Rightarrow> string \<Rightarrow> string \<Rightarrow> string" where
  "toProxiedImageUrl P url secret =
     (if url = [] \<or> startsWith url ''#'' \<or> startsWith url ''data:'' then url
      else
        (let normalizedUrl = (if startsWith url ''//'' then ''https:'' @ url else url)
         in case url_parse P normalizedUrl of
              None \<Rightarrow> url
            | Some parsed \<Rightarrow>
                if protocol parsed \<noteq> ''http:'' \<and> protocol parsed \<noteq> ''https:'' then url
                else if isTrustedImageDomain P normalizedUrl then normalizedUrl
                else ''/api/registry/image-proxy?url='' @ encodeURIComponent normalizedUrl
                       @ ''&sig='' @ signImageUrl normalizedUrl secret))"

section \<open>A reference platform\<close>

text \<open>
  For requests written out in full the platform has to be computed.  This section
  gives an executable model of the URL parser of Node (the WHATWG URL Standard) and
  of ipaddr.js on a fragment of their inputs, and says where the fragment ends:
  \<^item> a URL is made of the printable ASCII characters that the parser copies
    unchanged (no white space, quote, angle bracket, backslash, caret, backquote,
    brace or bar), so that no percent-encoding is ever added;
  \<^item> the scheme is \<open>http\<close>, \<open>https\<close>, \<open>ftp\<close>, \<open>ws\<close> or \<open>wss\<close>, or it is not special;
    \<open>file\<close> URLs are outside;
  \<^item> the authority has no user information, and the host is a domain or an IPv4
    address in any of the notations of the standard; IPv6, percent-encoded and
    \<open>xn--\<close> hosts are outside;
  \<^item> ipaddr.js is given IPv4 addresses in the dotted form of four parts.
  Outside the fragment the model answers \<open>None\<close> (or \<open>False\<close>), which the theorems
  about written-out requests never meet.
\<close>

definition plain_char :: "char \<Rightarrow> bool" where
  "plain_char c =
     (33 \<le> (of_char c :: nat) \<and> (of_char c :: nat) \<le> 126
      \<and> c \<notin> {CHR 0x22, CHR 0x27, CHR ''<'', CHR ''>'', CHR 0x5C, CHR ''^'', CHR 0x60,
               CHR ''{'', CHR ''|'', CHR ''}''})"

definition is_alpha :: "char \<Rightarrow> bool" where
  "is_alpha c =
     (let n = (of_char c :: nat) in (65 \<le> n \<and> n \<le> 90) \<or> (97 \<le> n \<and> n \<le> 122))"

definition scheme_char :: "char \<Rightarrow> bool" where
  "scheme_char c = (is_alpha c \<or> is_digit c \<or> c \<in> {CHR ''+'', CHR ''-'', CHR ''.''})"

text \<open>The scheme state: a letter, then letters, digits, \<open>+\<close>, \<open>-\<close>, \<open>.\<close> up to a colon.\<close>

definition split_scheme :: "string \<Rightarrow> (string \<times> string) option" where
  "split_scheme s =
     (case s of
        [] \<Rightarrow> None
      | c # _ \<Rightarrow>
          if \<not> is_alpha c then None
          else
            (case dropWhile scheme_char s of
               [] \<Rightarrow> None
             | d # rest \<Rightarrow>
                 if d = CHR '':'' then Some (toLowerCase (takeWhile scheme_char s), rest)
                 else None))"

definition special_scheme :: "string \<Rightarrow> bool" where
  "special_scheme s = (s \<in> {''http'', ''https'', ''ftp'', ''ws'', ''wss''})"

definition default_port :: "string \<Rightarrow> nat" where
  "default_port s =
     (if s = ''http'' \<or> s = ''ws'' then 80
      else if s = ''https'' \<or> s = ''wss'' then 443
      else 21)"

fun split_on :: "char \<Rightarrow> string \<Rightarrow> string list" where
  "split_on d [] = [[]]"
| "split_on d (c # cs) =
     (if c = d then [] # split_on d cs
      else (case split_on d cs of [] \<Rightarrow> [[c]] | x # xs \<Rightarrow> (c # x) # xs))"

text \<open>The IPv4 number parser: hexadecimal after \<open>0x\<close>, octal after \<open>0\<close>, else decimal.\<close>

definition digit_value :: "char \<Rightarrow> nat" where
  "digit_value c =
     (let n = (of_char c :: nat)
      in if 48 \<le> n \<and> n \<le> 57 then n - 48
         else if 97 \<le> n \<and> n \<le> 102 then n - 87
         else if 65 \<le> n \<and> n \<le> 70 then n - 55
         else 16)"

definition parse_radix :: "nat \<Rightarrow> string \<Rightarrow> nat option" where
  "parse_radix r s =
     (if list_all (\<lambda>c. digit_value c < r) s
      then Some (foldl (\<lambda>acc c. r * acc + digit_value c) 0 s)
      else None)"

definition ipv4_number :: "string \<Rightarrow> nat option" where
  "ipv4_number s =
     (if s = [] then None
      else if 2 \<le> length s \<and> (take 2 s = ''0x'' \<or> take 2 s = ''0X'') then parse_radix 16 (drop 2 s)
      else if 2 \<le> length s \<and> take 1 s = ''0'' then parse_radix 8 (drop 1 s)
      else parse_radix 10 s)"

text \<open>The parts of a host between dots, without the empty part after a final dot.\<close>

definition host_parts :: "string \<Rightarrow> string list" where
  "host_parts h =
     (let parts = split_on CHR ''.'' h
      in if last parts = [] \<and> 1 < length parts then butlast parts else parts)"

definition ends_in_number :: "string \<Rightarrow> bool" where
  "ends_in_number h =
     (let l = last (host_parts h)
      in (l \<noteq> [] \<and> list_all is_digit l) \<or> ipv4_number l \<noteq> None)"

definition ipv4_parse :: "string \<Rightarrow> nat option" where
  "ipv4_parse h =
     (let parts = host_parts h
      in if 4 < length parts then None
         else if \<not> list_all (\<lambda>p. ipv4_number p \<noteq> None) parts then None
         else
           (let numbers = map (\<lambda>p. case ipv4_number p of None \<Rightarrow> 0 | Some n \<Rightarrow> n) parts
            in if \<not> list_all (\<lambda>n. n \<le> 255) (butlast numbers) then None
               else if 256 ^ (5 - length numbers) \<le> last numbers then None
               else Some (last numbers
                          + sum_list (map (\<lambda>(n, i). n * 256 ^ (3 - i))
                                        (zip (butlast numbers) [0, 1, 2])))))"

definition ipv4_serialize :: "nat \<Rightarrow> string" where
  "ipv4_serialize n =
     show_nat (n div 256 ^ 3 mod 256) @ ''.'' @ show_nat (n div 256 ^ 2 mod 256) @ ''.''
       @ show_nat (n div 256 mod 256) @ ''.'' @ show_nat (n mod 256)"

text \<open>The host parser for a special scheme.\<close>

definition host_char :: "char \<Rightarrow> bool" where
  "host_char c =
     (plain_char c \<and> c \<notin> {CHR ''#'', CHR ''/'', CHR '':'', CHR ''?'', CHR ''@'', CHR ''['',
                            CHR '']'', CHR ''%''})"

definition parse_host :: "string \<Rightarrow> string option" where
  "parse_host h =
     (if h = [] \<or> \<not> list_all host_char h then None
      else
        (let d = toLowerCase h
         in if list_ex (\<lambda>l. take 4 l = ''xn--'') (split_on CHR ''.'' d) then None
            else if ends_in_number d then map_option ipv4_serialize (ipv4_parse d)
            else Some d))"

text \<open>The port state: digits only, at most 65535; the default port is left out.\<close>

definition parse_port :: "string \<Rightarrow> string \<Rightarrow> nat option option" where
  "parse_port scheme p =
     (if \<not> list_all is_digit p then None
      else if p = [] then Some None
      else
        (let n = decimal_value p
         in if 65535 < n then None
            else if n = default_port scheme then Some None
            else Some (Some n)))"

record url_record =
  u_scheme :: string
  u_host :: string
  u_port :: "nat option"
  u_path :: "string list"
  u_query :: "string option"
  u_fragment :: "string option"

text \<open>The path state: dot segments are dropped or go up, as they come.\<close>

definition single_dot :: "string \<Rightarrow> bool" where
  "single_dot s = (toLowerCase s \<in> {''.'', ''%2e''})"

definition double_dot :: "string \<Rightarrow> bool" where
  "double_dot s = (toLowerCase s \<in> {''..'', ''.%2e'', ''%2e.'', ''%2e%2e''})"

fun path_state :: "string list \<Rightarrow> string list \<Rightarrow> string list" where
  "path_state acc [] = acc"
| "path_state acc (s # rest) =
     (if double_dot s
      then (if rest = [] then butlast acc @ [[]] else path_state (butlast acc) rest)
      else if single_dot s
      then (if rest = [] then acc @ [[]] else path_state acc rest)
      else path_state (acc @ [s]) rest)"

definition before_any :: "char set \<Rightarrow> string \<Rightarrow> string" where
  "before_any ds s = takeWhile (\<lambda>c. c \<notin> ds) s"

definition from_any :: "char set \<Rightarrow> string \<Rightarrow> string" where
  "from_any ds s = dropWhile (\<lambda>c. c \<notin> ds) s"

text \<open>The query and the fragment of what follows the path.\<close>

definition query_of :: "string \<Rightarrow> string option" where
  "query_of t =
     (case from_any {CHR ''?'', CHR ''#''} t of
        [] \<Rightarrow> None
      | c # r \<Rightarrow> if c = CHR ''?'' then Some (before_any {CHR ''#''} r) else None)"

definition fragment_of :: "string \<Rightarrow> string option" where
  "fragment_of t = (case from_any {CHR ''#''} t of [] \<Rightarrow> None | c # r \<Rightarrow> Some r)"

text \<open>Host, port and what follows, after the slashes that open the authority.\<close>

definition parse_authority :: "string \<Rightarrow> string \<Rightarrow> url_record option" where
  "parse_authority scheme s =
     (let auth = before_any {CHR ''/'', CHR ''?'', CHR ''#''} s;
          t = from_any {CHR ''/'', CHR ''?'', CHR ''#''} s;
          h = before_any {CHR '':''} auth;
          p = drop 1 (from_any {CHR '':''} auth)
      in case parse_host h of
           None \<Rightarrow> None
         | Some host \<Rightarrow>
             (case parse_port scheme p of
                None \<Rightarrow> None
              | Some port \<Rightarrow>
                  Some \<lparr>u_scheme = scheme, u_host = host, u_port = port,
                        u_path = path_state []
                          (split_on CHR ''/''
                             (let ps = before_any {CHR ''?'', CHR ''#''} t
                              in if take 1 ps = ''/'' then drop 1 ps else ps)),
                        u_query = query_of t, u_fragment = fragment_of t\<rparr>))"

text \<open>A URL with a special scheme and no base: any number of slashes opens the
  authority.\<close>

definition parse_special :: "string \<Rightarrow> string \<Rightarrow> url_record option" where
  "parse_special scheme rest = parse_authority scheme (dropWhile (\<lambda>c. c = CHR ''/'') rest)"

definition parse_absolute :: "string \<Rightarrow> url_record option" where
  "parse_absolute s =
     (if \<not> list_all plain_char s then None
      else
        (case split_scheme s of
           None \<Rightarrow> None
         | Some (scheme, rest) \<Rightarrow>
             if special_scheme scheme then parse_special scheme rest else None))"

definition serialize_url :: "url_record \<Rightarrow> string" where
  "serialize_url u =
     u_scheme u @ ''://'' @ u_host u
       @ (case u_port u of None \<Rightarrow> [] | Some p \<Rightarrow> '':'' @ show_nat p)
       @ concat (map (\<lambda>s. ''/'' @ s) (u_path u))
       @ (case u_query u of None \<Rightarrow> [] | Some q \<Rightarrow> ''?'' @ q)
       @ (case u_fragment u of None \<Rightarrow> [] | Some f \<Rightarrow> ''#'' @ f)"

text \<open>
  \<open>URL.parse(s)\<close>.  A URL whose scheme is not special has the host of its authority
  as it stands, or no host when it has no authority.
\<close>

definition node_url_parse :: "string \<Rightarrow> parsed_url option" where
  "node_url_parse s =
     (if \<not> list_all plain_char s then None
      else
        (case split_scheme s of
           None \<Rightarrow> None
         | Some (scheme, rest) \<Rightarrow>
             if special_scheme scheme then
               map_option (\<lambda>u. \<lparr>protocol = u_scheme u @ '':'', hostname = u_host u\<rparr>)
                 (parse_special scheme rest)
             else if scheme = ''file'' then None
             else if take 2 rest = ''//'' then
               (let auth = before_any {CHR ''/'', CHR ''?'', CHR ''#''} (drop 2 rest);
                    h = before_any {CHR '':''} auth;
                    p = drop 1 (from_any {CHR '':''} auth)
                in if list_all host_char h \<and> list_all is_digit p
                      \<and> (p = [] \<or> decimal_value p \<le> 65535)
                   then Some \<lparr>protocol = scheme @ '':'', hostname = h\<rparr>
                   else None)
             else Some \<lparr>protocol = scheme @ '':'', hostname = []\<rparr>))"

text \<open>
  \<open>new URL(location, base).href\<close>, for a base with a special scheme.  A location with
  a scheme of its own is parsed alone, unless it repeats the scheme of the base without
  the two slashes; any other location is a reference relative to the base.
\<close>

definition relative_to :: "url_record \<Rightarrow> string \<Rightarrow> url_record option" where
  "relative_to b r =
     (let ps = before_any {CHR ''?'', CHR ''#''} r
      in if take 1 r = ''/'' then
           (if take 2 r = ''//'' then parse_special (u_scheme b) r
            else Some (b\<lparr>u_path := path_state [] (split_on CHR ''/'' (drop 1 ps)),
                         u_query := query_of r, u_fragment := fragment_of r\<rparr>))
         else if r = [] then Some (b\<lparr>u_fragment := None\<rparr>)
         else if take 1 r = ''?'' then Some (b\<lparr>u_query := query_of r, u_fragment := fragment_of r\<rparr>)
         else if take 1 r = ''#'' then Some (b\<lparr>u_fragment := fragment_of r\<rparr>)
         else Some (b\<lparr>u_path := path_state (butlast (u_path b)) (split_on CHR ''/'' ps),
                      u_query := query_of r, u_fragment := fragment_of r\<rparr>))"

definition node_url_resolve :: "string \<Rightarrow> string \<Rightarrow> string option" where
  "node_url_resolve loc base =
     (case parse_absolute base of
        None \<Rightarrow> None
      | Some b \<Rightarrow>
          if \<not> list_all plain_char loc then None
          else
            map_option serialize_url
              (case split_scheme loc of
                 None \<Rightarrow> relative_to b loc
               | Some (scheme, rest) \<Rightarrow>
                   if \<not> special_scheme scheme then None
                   else if scheme = u_scheme b \<and> take 2 rest \<noteq> ''//'' then relative_to b rest
                   else parse_special scheme rest))"

text \<open>
  ipaddr.js on the dotted form of four parts: \<open>isValid\<close> wants each part to be a
  number of at most 255, read as hexadecimal after \<open>0x\<close>, as octal after a \<open>0\<close> that
  a digit follows, and as decimal otherwise.
\<close>

definition ipaddr_part :: "string \<Rightarrow> nat option" where
  "ipaddr_part s =
     (if s = [] then None
      else if take 2 (toLowerCase s) = ''0x'' then
        (if drop 2 s = [] then None else parse_radix 16 (drop 2 s))
      else if 2 \<le> length s \<and> take 1 s = ''0'' \<and> list_all is_digit s then parse_radix 8 (drop 1 s)
      else parse_radix 10 s)"

definition ipaddr_octets :: "string \<Rightarrow> nat list option" where
  "ipaddr_octets s =
     (let parts = split_on CHR ''.'' s
      in if length parts = 4 \<and> list_all (\<lambda>p. case ipaddr_part p of None \<Rightarrow> False | Some n \<Rightarrow> n \<le> 255) parts
         then Some (map (\<lambda>p. case ipaddr_part p of None \<Rightarrow> 0 | Some n \<Rightarrow> n) parts)
         else None)"

text \<open>The special ranges of IPv4 in ipaddr.js 2, in the order \<open>range()\<close> tries them;
  an address in none of them is \<open>unicast\<close>.\<close>

definition ipv4_special_ranges :: "(string \<times> (nat list \<times> nat) list) list" where
  "ipv4_special_ranges =
    [(''unspecified'', [([0, 0, 0, 0], 8)]),
     (''broadcast'', [([255, 255, 255, 255], 32)]),
     (''multicast'', [([224, 0, 0, 0], 4)]),
     (''linkLocal'', [([169, 254, 0, 0], 16)]),
     (''loopback'', [([127, 0, 0, 0], 8)]),
     (''carrierGradeNat'', [([100, 64, 0, 0], 10)]),
     (''private'', [([10, 0, 0, 0], 8), ([172, 16, 0, 0], 12), ([192, 168, 0, 0], 16)]),
     (''reserved'',
        [([192, 0, 0, 0], 24), ([192, 0, 2, 0], 24), ([192, 88, 99, 0], 24),
         ([198, 18, 0, 0], 15), ([198, 51, 100, 0], 24), ([203, 0, 113, 0], 24),
         ([240, 0, 0, 0], 4)])]"

definition octets_value :: "nat list \<Rightarrow> nat" where
  "octets_value os = foldl (\<lambda>acc n. 256 * acc + n) 0 os"

definition match_cidr :: "nat list \<Rightarrow> nat list \<times> nat \<Rightarrow> bool" where
  "match_cidr os subnet =
     (case subnet of
        (net, bits) \<Rightarrow>
          octets_value os div 2 ^ (32 - bits) = octets_value net div 2 ^ (32 - bits))"

definition ipv4_range :: "nat list \<Rightarrow> string" where
  "ipv4_range os =
     (case List.find (\<lambda>(name, subnets). list_ex (match_cidr os) subnets) ipv4_special_ranges of
        None \<Rightarrow> ''unicast''
      | Some (name, subnets) \<Rightarrow> name)"

definition node_platform :: platform where
  "node_platform =
     \<lparr>url_parse = node_url_parse,
      url_resolve = node_url_resolve,
      ipaddr_isValid = (\<lambda>s. ipaddr_octets s \<noteq> None),
      ipaddr_range = (\<lambda>s. case ipaddr_octets s of None \<Rightarrow> [] | Some os \<Rightarrow> ipv4_range os)\<rparr>"

section \<open>Notions of the specification\<close>

text \<open>
  The classification of an address (the \<open>HostClassification\<close> of the data model), as
  \<open>isPrivateIP\<close> computes it: an address that ipaddr.js does not read is \<open>Invalid\<close>,
  one in the range \<open>unicast\<close> is \<open>Unicast\<close>, any other is \<open>Private\<close>.
\<close>

datatype host_class = Unicast | Private | Invalid

definition classify :: "platform \<Rightarrow> string \<Rightarrow> host_class" where
  "classify P a =
     (if \<not> ipaddr_isValid P a then Invalid
      else if ipaddr_range P a = ''unicast'' then Unicast
      else Private)"

text \<open>The errors of an \<open>AuthorizationFailure\<close> (bad or missing signature): the 403 of a
  signature that does not verify and the 400 of a request without \<open>sig\<close>.\<close>

definition authorization_failure :: "failure \<Rightarrow> bool" where
  "authorization_failure e =
     (e = H3Error 403 ''Invalid signature.''
      \<or> e = H3Error 400 (missing_parameter ''sig''))"

text \<open>Signature verification fails: the signature is missing, the secret is missing, or
  the tag is not the one of the URL.\<close>

definition verification_fails :: "config \<Rightarrow> string \<Rightarrow> string option \<Rightarrow> bool" where
  "verification_fails C url signature =
     (case signature of
        None \<Rightarrow> True
      | Some s \<Rightarrow>
          s = [] \<or> imageProxySecret C = [] \<or> \<not> verifyImageUrl url s (imageProxySecret C))"

text \<open>A request that passes every check before the loop: \<open>url\<close> and \<open>sig\<close> are there, the
  signature verifies, the guard allows the URL and its host validates.\<close>

definition accepted_request :: "platform \<Rightarrow> world \<Rightarrow> config \<Rightarrow> query \<Rightarrow> string \<Rightarrow> bool" where
  "accepted_request P W C q url =
     (first_value (q_url q) = Some url \<and> url \<noteq> []
      \<and> (\<exists>s. first_value (q_sig q) = Some s \<and> s \<noteq> [] \<and> imageProxySecret C \<noteq> []
             \<and> verifyImageUrl url s (imageProxySecret C))
      \<and> isAllowedImageUrl P url
      \<and> fst (resolveAndValidateHost P W [] url))"


text \<open>The fetches among the calls of a trace.\<close>

fun is_fetch :: "io_action \<Rightarrow> bool" where
  "is_fetch (HttpFetch u) = True"
| "is_fetch a = False"

text \<open>
  The fetch of a URL \<open>u\<close> after the trace \<open>pre\<close> is validated when the guard allows
  \<open>u\<close> and the call of \<open>resolveAndValidateHost\<close> made for this very fetch has
  answered \<open>true\<close>.  Either that call was the first thing on the network, and \<open>pre\<close>
  is the trace it left: \<open>u\<close> is the URL of the request.  Or \<open>u\<close> is the target of a
  redirect: the fetch of a URL \<open>cur\<close>, after a trace \<open>t\<close>, was answered by a response
  \<open>r\<close> with a redirect status whose \<open>Location\<close> resolves against \<open>cur\<close> to \<open>u\<close>; the
  call was made right after that fetch; and \<open>pre\<close> is the trace it left, followed
  only by the cancelling of the body of \<open>r\<close>.  A validation of the same host at any
  other moment does not count.  Every fetch of a trace is validated when this holds
  of each \<open>HttpFetch u\<close> and the trace before it.
\<close>

definition validated :: "platform \<Rightarrow> world \<Rightarrow> trace \<Rightarrow> string \<Rightarrow> bool" where
  "validated P W pre u =
     (isAllowedImageUrl P u
      \<and> (resolveAndValidateHost P W [] u = (True, pre)
          \<or> (\<exists>t cur r loc t1.
                http_fetch W t cur = FetchResponse r
                \<and> status r \<in> REDIRECT_STATUSES
                \<and> location r = Some loc
                \<and> url_resolve P loc cur = Some u
                \<and> resolveAndValidateHost P W (t @ [HttpFetch cur]) u = (True, t1)
                \<and> pre = cancel_body r t1)))"

fun fetches_validated :: "platform \<Rightarrow> world \<Rightarrow> trace \<Rightarrow> trace \<Rightarrow> bool" where
  "fetches_validated P W pre [] = True"
| "fetches_validated P W pre (HttpFetch u # rest) =
     (validated P W pre u \<and> fetches_validated P W (pre @ [HttpFetch u]) rest)"
| "fetches_validated P W pre (a # rest) = fetches_validated P W (pre @ [a]) rest"

text \<open>
  What holds of the relay in every state it can reach on the body \<open>b\<close>: what has been
  pushed into \<open>limited\<close> (read by the consumer or not) begins the body and is at most
  \<open>MAX_SIZE\<close> bytes; the counter and what \<open>upstream\<close> has still to emit add up to the
  body; while \<open>upstream\<close> is active the counter is what has been pushed; a counter
  above \<open>MAX_SIZE\<close> means both streams are destroyed; and \<open>limited\<close> has ended only
  if the whole body fits.
\<close>

definition relay_inv :: "body_stream \<Rightarrow> relay \<Rightarrow> bool" where
  "relay_inv b st =
     (prefix (delivered st @ buffered st) (chunks b)
      \<and> total_bytes (delivered st @ buffered st) \<le> MAX_SIZE
      \<and> bytesRead st + total_bytes (to_emit st) = total_bytes (chunks b)
      \<and> (upstream_state st = Active \<longrightarrow>
            delivered st @ buffered st @ to_emit st = chunks b
            \<and> bytesRead st = total_bytes (delivered st @ buffered st)
            \<and> limited_state st = Open)
      \<and> (bytesRead st > MAX_SIZE \<longrightarrow>
            upstream_state st = UpstreamDestroyed
            \<and> limited_state st = Destroyed ''Image too large'')
      \<and> (limited_state st = Ended \<longrightarrow> total_bytes (chunks b) \<le> MAX_SIZE))"

text \<open>A schedule of \<open>n\<close> rounds in which the consumer reads and upstream then emits.\<close>

definition fair_schedule :: "nat \<Rightarrow> turn list" where
  "fair_schedule n = concat (replicate n [Consumer, Upstream])"

section \<open>Worlds and requests written out\<close>

text \<open>A request for \<open>url\<close> signed with the secret, as \<open>toProxiedImageUrl\<close> makes it.\<close>

definition signed_request :: "string \<Rightarrow> string \<Rightarrow> query" where
  "signed_request url secret =
     \<lparr>q_url = Some (QString url), q_sig = Some (QString (signImageUrl url secret))\<rparr>"

definition example_config :: config where
  "example_config = \<lparr>imageProxySecret = ''secret'', CACHE_MAX_AGE_ONE_DAY = 86400\<rparr>"

text \<open>A world in which every name has the addresses \<open>addrs\<close> and \<open>site\<close> says how each
  URL answers.\<close>

definition simple_world :: "dns_result \<Rightarrow> (string \<Rightarrow> fetch_result) \<Rightarrow> world" where
  "simple_world answer site = \<lparr>dns_lookup = (\<lambda>t h. answer), http_fetch = (\<lambda>t u. site u)\<rparr>"

definition public_dns :: dns_result where
  "public_dns = LookupAddresses [''93.184.216.34'']"

definition redirect_to :: "string \<Rightarrow> response" where
  "redirect_to loc =
     \<lparr>status = 302, location = Some loc, content_type = None, content_length = None,
      body = None\<rparr>"

definition image_response :: "string \<Rightarrow> string option \<Rightarrow> body_stream \<Rightarrow> response" where
  "image_response ctype clen b =
     \<lparr>status = 200, location = None, content_type = Some ctype, content_length = clen,
      body = Some b\<rparr>"

definition small_body :: body_stream where
  "small_body = \<lparr>chunks = [[137, 80, 78, 71]], ending = EndOfBody\<rparr>"

text \<open>A body of one byte more than \<open>MAX_SIZE\<close>, in two chunks.\<close>

definition large_body :: body_stream where
  "large_body = \<lparr>chunks = [replicate MAX_SIZE 0, [0]], ending = EndOfBody\<rparr>"

text \<open>\<open>https://evil.example/a.png\<close> redirects to the loopback address.\<close>

definition evil_site :: "string \<Rightarrow> fetch_result" where
  "evil_site u =
     (if u = ''https://evil.example/a.png'' then FetchResponse (redirect_to ''http://127.0.0.1/admin'')
      else FetchResponse (image_response ''image/png'' None small_body))"

text \<open>\<open>http://a.example/a.png\<close> redirects, without a scheme, to \<open>//cdn.example/b.png\<close>.\<close>

definition relative_site :: "string \<Rightarrow> fetch_result" where
  "relative_site u =
     (if u = ''http://a.example/a.png'' then FetchResponse (redirect_to ''//cdn.example/b.png'')
      else FetchResponse (image_response ''image/png'' None small_body))"

text \<open>Six redirects, then an image: \<open>https://example.com/0\<close> redirects to \<open>/1\<close>, that
  one to \<open>/2\<close>, and so on to \<open>https://example.com/6\<close>, which answers with an image.\<close>

definition six_hop_site :: "string \<Rightarrow> fetch_result" where
  "six_hop_site u =
     (case map_of
             [(''https://example.com/0'', ''/1''), (''https://example.com/1'', ''/2''),
              (''https://example.com/2'', ''/3''), (''https://example.com/3'', ''/4''),
              (''https://example.com/4'', ''/5''), (''https://example.com/5'', ''/6'')] u of
        Some loc \<Rightarrow> FetchResponse (redirect_to loc)
      | None \<Rightarrow> FetchResponse (image_response ''image/png'' None small_body))"


text \<open>A world that rebinds: the first lookup of a name answers with a public address,
  every later lookup of that name with the loopback address; every URL redirects to
  \<open>/b.png\<close> on its own host.\<close>

definition rebinding_world :: world where
  "rebinding_world =
     \<lparr>dns_lookup = (\<lambda>t h. if DnsLookup h \<in> set t then LookupAddresses [''127.0.0.1'']
                           else public_dns),
      http_fetch = (\<lambda>t u. FetchResponse (redirect_to ''/b.png''))\<rparr>"

definition image_site :: "response \<Rightarrow> string \<Rightarrow> fetch_result" where
  "image_site r u = FetchResponse r"

text \<open>
  The reference platform with the IPv6 loopback address added, for one URL with a
  bracketed host: as in Node.js, the host name of \<open>http://[::1]/x\<close> is \<open>[::1]\<close>, and
  ipaddr.js reads \<open>::1\<close>, without brackets, as an address of the range \<open>loopback\<close>.
\<close>

definition loopback6_platform :: platform where
  "loopback6_platform =
     \<lparr>url_parse = (\<lambda>s. if s = ''http://[::1]/x''
                        then Some \<lparr>protocol = ''http:'', hostname = ''[::1]''\<rparr>
                        else node_url_parse s),
      url_resolve = node_url_resolve,
      ipaddr_isValid = (\<lambda>s. s = ''::1'' \<or> ipaddr_octets s \<noteq> None),
      ipaddr_range = (\<lambda>s. if s = ''::1'' then ''loopback''
                          else (case ipaddr_octets s of
                                  None \<Rightarrow> []
                                | Some os \<Rightarrow> ipv4_range os))\<rparr>"

section \<open>Properties of the signer and verifier\<close>

lemma length_digest_bytes: "length (digest_bytes st) = 32"
  by (cases st rule: digest_bytes.cases) (simp add: bytes_of_u32_def)

lemma length_sha256: "length (sha256 m) = 32"
  by (simp add: sha256_def Let_def length_digest_bytes)

lemma length_hex_encode: "length (hex_encode bs) = 2 * length bs"
  by (induction bs) (simp_all add: hex_encode_def)

lemma length_signImageUrl: "length (signImageUrl url secret) = 64"
  by (simp add: signImageUrl_def hmac_sha256_def Let_def length_hex_encode length_sha256)

lemma signImageUrl_nonempty: "signImageUrl url secret \<noteq> []"
  using length_signImageUrl [of url secret] by auto

text \<open>
  C5 (as the code has it).  A tag made with secret \<open>s\<close> verifies under \<open>s\<close> exactly
  when \<open>s\<close> is not the empty string, and it verifies under a secret \<open>s'\<close> exactly
  when \<open>s'\<close> is not empty and gives the URL the same tag: verification under a
  secret whose tag for the URL differs fails.
\<close>

theorem verify_of_sign:
  "(verifyImageUrl u (signImageUrl u s) s \<longleftrightarrow> s \<noteq> []) \<and>
   (verifyImageUrl u (signImageUrl u s) s' \<longleftrightarrow> s' \<noteq> [] \<and> signImageUrl u s' = signImageUrl u s)"
  by (auto simp: verifyImageUrl_def Let_def signImageUrl_nonempty)

text \<open>HMAC fills a short key with zero bytes, so a secret and the same secret followed
  by a NUL character sign alike.\<close>

lemma hmac_key_block_zero_padded:
  "length key < 64 \<Longrightarrow> hmac_key_block (key @ [0]) = hmac_key_block key"
  by (simp add: hmac_key_block_def Let_def replicate_app_Cons_same Suc_diff_Suc
      flip: replicate_Suc)

lemma signImageUrl_NUL:
  "length s < 64 \<Longrightarrow> signImageUrl u (s @ [CHR 0x00]) = signImageUrl u s"
  by (simp add: signImageUrl_def hmac_sha256_def bytes_of_string_def
      hmac_key_block_zero_padded)

text \<open>
  C5 as stated fails twice: under the empty secret the round trip is refused, and the
  secrets \<open>a\<close> and \<open>a\<close> followed by NUL are different and verify each other's tags.
\<close>

theorem verify_of_sign_counterexample:
  "\<not> verifyImageUrl ''https://example.com/x.png''
       (signImageUrl ''https://example.com/x.png'' '''') '''' \<and>
   ''a'' @ [CHR 0x00] \<noteq> ''a'' \<and>
   verifyImageUrl ''https://example.com/x.png''
       (signImageUrl ''https://example.com/x.png'' ''a'') (''a'' @ [CHR 0x00])"
proof -
  have "signImageUrl ''https://example.com/x.png'' (''a'' @ [CHR 0x00])
        = signImageUrl ''https://example.com/x.png'' ''a''"
    by (rule signImageUrl_NUL) simp
  then show ?thesis
    by (simp add: verifyImageUrl_def Let_def signImageUrl_nonempty)
qed

section \<open>Evaluating the reference platform\<close>

lemmas js_string_defs = startsWith_def endsWith_def includesStr_def toLowerCase_def lower_char_def
  suffix_to_prefix

lemmas node_url_defs = node_url_parse_def node_url_resolve_def parse_absolute_def
  parse_special_def parse_authority_def parse_host_def parse_port_def host_char_def plain_char_def
  split_scheme_def special_scheme_def default_port_def is_alpha_def scheme_char_def is_digit_def
  before_any_def from_any_def query_of_def fragment_of_def host_parts_def ends_in_number_def
  ipv4_number_def ipv4_parse_def ipv4_serialize_def parse_radix_def digit_value_def
  single_dot_def double_dot_def decimal_value_def digit_char_def serialize_url_def relative_to_def

lemmas node_ip_defs = ipaddr_octets_def ipaddr_part_def ipv4_range_def ipv4_special_ranges_def
  match_cidr_def octets_value_def strip_brackets_def parse_radix_def digit_value_def is_digit_def

lemma node_platform_sel [simp]:
  "url_parse node_platform = node_url_parse"
  "url_resolve node_platform = node_url_resolve"
  "ipaddr_isValid node_platform s = (ipaddr_octets s \<noteq> None)"
  "ipaddr_range node_platform s = (case ipaddr_octets s of None \<Rightarrow> [] | Some os \<Rightarrow> ipv4_range os)"
  by (simp_all add: node_platform_def)

lemma parse_metadata_url:
  "node_url_parse ''http://169.254.169.254/x''
   = Some \<lparr>protocol = ''http:'', hostname = ''169.254.169.254''\<rparr>"
  by (simp add: js_string_defs node_url_defs Let_def)

lemma parse_example_com:
  "node_url_parse ''https://example.com/x.png''
   = Some \<lparr>protocol = ''https:'', hostname = ''example.com''\<rparr>"
  by (simp add: js_string_defs node_url_defs Let_def)

lemma parse_ftp_url:
  "node_url_parse ''ftp://example.com/x''
   = Some \<lparr>protocol = ''ftp:'', hostname = ''example.com''\<rparr>"
  by (simp add: js_string_defs node_url_defs Let_def)

lemma parse_google_dns:
  "node_url_parse ''http://8.8.8.8/x'' = Some \<lparr>protocol = ''http:'', hostname = ''8.8.8.8''\<rparr>"
  by (simp add: js_string_defs node_url_defs Let_def)

lemma metadata_is_linkLocal:
  "ipaddr_octets ''169.254.169.254'' = Some [169, 254, 169, 254]"
  "ipv4_range [169, 254, 169, 254] = ''linkLocal''"
  by (simp_all add: js_string_defs node_ip_defs)

lemma example_com_no_address: "ipaddr_octets ''example.com'' = None"
  by (simp add: js_string_defs node_ip_defs)

lemma google_dns_unicast:
  "ipaddr_octets ''8.8.8.8'' = Some [8, 8, 8, 8]"
  "ipv4_range [8, 8, 8, 8] = ''unicast''"
  by (simp_all add: js_string_defs node_ip_defs)

lemma allowed_metadata_url: "\<not> isAllowedImageUrl node_platform ''http://169.254.169.254/x''"
  by (simp add: isAllowedImageUrl_def isPrivateIP_def parse_metadata_url metadata_is_linkLocal
      js_string_defs strip_brackets_def Let_def)

lemma allowed_example_com: "isAllowedImageUrl node_platform ''https://example.com/x.png''"
  by (simp add: isAllowedImageUrl_def isPrivateIP_def parse_example_com example_com_no_address
      js_string_defs strip_brackets_def Let_def)

lemma allowed_ftp_url: "\<not> isAllowedImageUrl node_platform ''ftp://example.com/x''"
  by (simp add: isAllowedImageUrl_def parse_ftp_url Let_def)

lemma allowed_google_dns: "isAllowedImageUrl node_platform ''http://8.8.8.8/x''"
  by (simp add: isAllowedImageUrl_def isPrivateIP_def parse_google_dns google_dns_unicast
      js_string_defs strip_brackets_def Let_def)

section \<open>Properties of the URL policy guard\<close>

lemma isPrivateIP_classify: "isPrivateIP P ip \<longleftrightarrow> classify P (strip_brackets ip) = Private"
  by (simp add: isPrivateIP_def classify_def Let_def)

lemma toLowerCase_Nil [simp]: "toLowerCase s = [] \<longleftrightarrow> s = []"
  by (simp add: toLowerCase_def)

lemma isAllowedImageUrl_iff:
  "isAllowedImageUrl P url \<longleftrightarrow>
     (\<exists>parsed. url_parse P url = Some parsed
        \<and> (protocol parsed = ''http:'' \<or> protocol parsed = ''https:'')
        \<and> hostname parsed \<noteq> []
        \<and> toLowerCase (hostname parsed) \<noteq> ''localhost''
        \<and> \<not> endsWith (toLowerCase (hostname parsed)) ''.local''
        \<and> \<not> endsWith (toLowerCase (hostname parsed)) ''.internal''
        \<and> classify P (strip_brackets (toLowerCase (hostname parsed))) \<noteq> Private)"
  by (auto simp: isAllowedImageUrl_def Let_def isPrivateIP_classify split: option.splits)

lemma parse_local_names:
  "node_url_parse ''http://localhost/x'' = Some \<lparr>protocol = ''http:'', hostname = ''localhost''\<rparr>"
  "node_url_parse ''http://LOCALHOST:8080/x'' = Some \<lparr>protocol = ''http:'', hostname = ''localhost''\<rparr>"
  "node_url_parse ''https://printer.local/x'' = Some \<lparr>protocol = ''https:'', hostname = ''printer.local''\<rparr>"
  "node_url_parse ''https://db.internal/x'' = Some \<lparr>protocol = ''https:'', hostname = ''db.internal''\<rparr>"
  by (simp_all add: js_string_defs node_url_defs Let_def)

lemma refused_local_names:
  "\<not> isAllowedImageUrl node_platform ''http://localhost/x''"
  "\<not> isAllowedImageUrl node_platform ''http://LOCALHOST:8080/x''"
  "\<not> isAllowedImageUrl node_platform ''https://printer.local/x''"
  "\<not> isAllowedImageUrl node_platform ''https://db.internal/x''"
  by (simp_all add: isAllowedImageUrl_def parse_local_names js_string_defs Let_def)

lemma isPrivateIP_bracketed: "isPrivateIP P (''['' @ a @ '']'') \<longleftrightarrow> classify P a = Private"
proof -
  have "suffix '']'' (''['' @ a @ '']'')"
    by (simp add: suffix_def)
  then show ?thesis
    by (simp add: isPrivateIP_def classify_def strip_brackets_def startsWith_def endsWith_def
        butlast_append Let_def)
qed

lemma isPrivateIP_bare:
  "\<not> (prefix ''['' ip \<and> suffix '']'' ip) \<Longrightarrow> isPrivateIP P ip \<longleftrightarrow> classify P ip = Private"
  by (auto simp add: isPrivateIP_def classify_def strip_brackets_def startsWith_def endsWith_def
      Let_def)

lemma refused_loopback6: "\<not> isAllowedImageUrl loopback6_platform ''http://[::1]/x''"
  by (simp add: isAllowedImageUrl_def isPrivateIP_def strip_brackets_def loopback6_platform_def
      js_string_defs Let_def)

text \<open>
  C7.  \<open>isAllowedImageUrl\<close> answers \<open>true\<close> exactly when the URL parses, its scheme is
  \<open>http\<close> or \<open>https\<close>, it has a host name, the host name in lower case is not
  \<open>localhost\<close> and does not end in \<open>.local\<close> or \<open>.internal\<close>, and, when the host
  name (without its brackets, if it begins with \<open>[\<close> and ends with \<open>]\<close>) is an IP
  address, that address classifies as \<open>Unicast\<close>.  So it answers \<open>false\<close> unless all
  of this holds.  A bracketed address is private exactly when the address between the
  brackets is, and on every platform that reads \<open>::1\<close> as an address outside
  \<open>unicast\<close> a URL with the host \<open>[::1]\<close> is refused.  On the three URLs of the
  specification the guard answers \<open>false\<close>, \<open>true\<close> and \<open>false\<close>; it also refuses
  \<open>localhost\<close>, in either case of letters, a name in \<open>.local\<close> and a name in
  \<open>.internal\<close>.
\<close>

theorem isAllowedImageUrl_guard:
  "(isAllowedImageUrl P url \<longleftrightarrow>
     (\<exists>parsed. url_parse P url = Some parsed
        \<and> (protocol parsed = ''http:'' \<or> protocol parsed = ''https:'')
        \<and> hostname parsed \<noteq> []
        \<and> (let h = toLowerCase (hostname parsed);
                a = (if prefix ''['' h \<and> suffix '']'' h then butlast (tl h) else h)
            in h \<noteq> ''localhost'' \<and> \<not> suffix ''.local'' h \<and> \<not> suffix ''.internal'' h
               \<and> (classify P a \<noteq> Invalid \<longrightarrow> classify P a = Unicast))))
   \<and> (isPrivateIP P (''['' @ ip @ '']'') \<longleftrightarrow> classify P ip = Private)
   \<and> (url_parse P v = Some \<lparr>protocol = ''http:'', hostname = ''[::1]''\<rparr>
        \<and> classify P ''::1'' = Private \<longrightarrow> \<not> isAllowedImageUrl P v)
   \<and> isAllowedImageUrl node_platform ''http://169.254.169.254/x'' = False
   \<and> isAllowedImageUrl node_platform ''https://example.com/x.png'' = True
   \<and> isAllowedImageUrl node_platform ''ftp://example.com/x'' = False
   \<and> isAllowedImageUrl node_platform ''http://localhost/x'' = False
   \<and> isAllowedImageUrl node_platform ''http://LOCALHOST:8080/x'' = False
   \<and> isAllowedImageUrl node_platform ''https://printer.local/x'' = False
   \<and> isAllowedImageUrl node_platform ''https://db.internal/x'' = False"
proof -
  have cls: "classify P a \<noteq> Private \<longleftrightarrow> (classify P a \<noteq> Invalid \<longrightarrow> classify P a = Unicast)"
    for a
    by (cases "classify P a") simp_all
  have general: "isAllowedImageUrl P url \<longleftrightarrow>
     (\<exists>parsed. url_parse P url = Some parsed
        \<and> (protocol parsed = ''http:'' \<or> protocol parsed = ''https:'')
        \<and> hostname parsed \<noteq> []
        \<and> (let h = toLowerCase (hostname parsed);
                a = (if prefix ''['' h \<and> suffix '']'' h then butlast (tl h) else h)
            in h \<noteq> ''localhost'' \<and> \<not> suffix ''.local'' h \<and> \<not> suffix ''.internal'' h
               \<and> (classify P a \<noteq> Invalid \<longrightarrow> classify P a = Unicast)))"
    unfolding isAllowedImageUrl_iff cls [symmetric] Let_def
    by (simp add: strip_brackets_def startsWith_def endsWith_def)
  have bracketed: "url_parse P v = Some \<lparr>protocol = ''http:'', hostname = ''[::1]''\<rparr>
        \<and> classify P ''::1'' = Private \<longrightarrow> \<not> isAllowedImageUrl P v"
    by (simp add: isAllowedImageUrl_def isPrivateIP_classify strip_brackets_def js_string_defs
        Let_def)
  from general bracketed isPrivateIP_bracketed [of P ip] allowed_metadata_url allowed_example_com
    allowed_ftp_url refused_local_names
  show ?thesis by blast
qed

theorem isAllowedImageUrl_guard_witness:
  "isAllowedImageUrl node_platform ''http://8.8.8.8/x''
   \<and> classify node_platform ''8.8.8.8'' \<noteq> Invalid
   \<and> classify node_platform ''8.8.8.8'' = Unicast
   \<and> url_parse loopback6_platform ''http://[::1]/x''
       = Some \<lparr>protocol = ''http:'', hostname = ''[::1]''\<rparr>
   \<and> classify loopback6_platform ''::1'' = Private
   \<and> isPrivateIP loopback6_platform ''[::1]''
   \<and> \<not> isAllowedImageUrl loopback6_platform ''http://[::1]/x''"
proof -
  have parsed: "url_parse loopback6_platform ''http://[::1]/x''
       = Some \<lparr>protocol = ''http:'', hostname = ''[::1]''\<rparr>"
    by (simp add: loopback6_platform_def)
  have cls6: "classify loopback6_platform ''::1'' = Private"
    by (simp add: loopback6_platform_def classify_def)
  have cls4: "classify node_platform ''8.8.8.8'' = Unicast"
    by (simp add: classify_def google_dns_unicast)
  note guard = isAllowedImageUrl_guard [of loopback6_platform "''http://[::1]/x''" "''::1''"
      "''http://[::1]/x''"]
  from guard [THEN conjunct2, THEN conjunct1] cls6
  have literal: "isPrivateIP loopback6_platform ''[::1]''"
    by simp
  from guard [THEN conjunct2, THEN conjunct2, THEN conjunct1] parsed cls6
  have refused: "\<not> isAllowedImageUrl loopback6_platform ''http://[::1]/x''"
    by simp
  from parsed cls6 cls4 allowed_google_dns literal refused show ?thesis
    by simp
qed
section \<open>Properties of the host resolution validator\<close>

lemma resolveAndValidateHost_literal:
  assumes "url_parse P url = Some parsed" and "hostname parsed \<noteq> []"
    and "ipaddr_isValid P (strip_brackets (toLowerCase (hostname parsed)))"
  shows "resolveAndValidateHost P W t url
         = (\<not> isPrivateIP P (strip_brackets (toLowerCase (hostname parsed))), t)"
  using assms by (simp add: resolveAndValidateHost_def Let_def)

lemma resolveAndValidateHost_lookup:
  assumes "url_parse P url = Some parsed" and "hostname parsed \<noteq> []"
    and "\<not> ipaddr_isValid P (strip_brackets (toLowerCase (hostname parsed)))"
  shows "resolveAndValidateHost P W t url
         = (case dns_lookup W t (toLowerCase (hostname parsed)) of
              LookupFails \<Rightarrow> False
            | LookupAddresses results \<Rightarrow>
                results \<noteq> [] \<and> list_all (\<lambda>a. \<not> isPrivateIP P a) results,
            t @ [DnsLookup (toLowerCase (hostname parsed))])"
  using assms by (simp add: resolveAndValidateHost_def Let_def split: dns_result.splits)

lemma resolveAndValidateHost_unparsed:
  "url_parse P url = None \<Longrightarrow> resolveAndValidateHost P W t url = (False, t)"
  "url_parse P url = Some parsed \<Longrightarrow> hostname parsed = []
     \<Longrightarrow> resolveAndValidateHost P W t url = (False, t)"
  by (simp_all add: resolveAndValidateHost_def)

text \<open>The validator only ever appends a lookup to the trace.\<close>

lemma resolveAndValidateHost_trace:
  "snd (resolveAndValidateHost P W t url) = t
   \<or> (\<exists>h. snd (resolveAndValidateHost P W t url) = t @ [DnsLookup h])"
  by (auto simp: resolveAndValidateHost_def Let_def split: option.splits dns_result.splits)

text \<open>
  C4.  For a URL whose host name \<open>h\<close> is not an IP address, so that DNS is asked:
  \<open>resolveAndValidateHost\<close> answers \<open>false\<close> when the lookup throws, when it yields no
  address, and when one of the addresses it yields classifies as \<open>Private\<close>, whatever
  the others are; and when it answers \<open>true\<close>, the lookup has yielded at least one
  address, none of them \<open>Private\<close>, so that, the answer of DNS being a list of IP
  addresses, every one of them classifies as \<open>Unicast\<close>.
\<close>

theorem resolveAndValidateHost_fails_closed:
  assumes "url_parse P url = Some parsed" and "hostname parsed \<noteq> []"
    and "h = toLowerCase (hostname parsed)"
    and "classify P (strip_brackets h) = Invalid"
  shows
    "(dns_lookup W t h = LookupFails \<longrightarrow> \<not> fst (resolveAndValidateHost P W t url))
     \<and> (dns_lookup W t h = LookupAddresses [] \<longrightarrow> \<not> fst (resolveAndValidateHost P W t url))
     \<and> (\<forall>results. dns_lookup W t h = LookupAddresses results
            \<and> (\<exists>a \<in> set results. classify P (strip_brackets a) = Private)
          \<longrightarrow> \<not> fst (resolveAndValidateHost P W t url))
     \<and> (fst (resolveAndValidateHost P W t url) \<longrightarrow>
          (\<exists>results. dns_lookup W t h = LookupAddresses results \<and> results \<noteq> []
             \<and> (\<forall>a \<in> set results. classify P (strip_brackets a) \<noteq> Private)
             \<and> ((\<forall>a \<in> set results. classify P (strip_brackets a) \<noteq> Invalid)
                  \<longrightarrow> (\<forall>a \<in> set results. classify P (strip_brackets a) = Unicast))))"
proof -
  have invalid: "\<not> ipaddr_isValid P (strip_brackets (toLowerCase (hostname parsed)))"
    using assms(3,4) by (simp add: classify_def split: if_splits)
  have cls: "classify P a \<noteq> Private \<Longrightarrow> classify P a \<noteq> Invalid \<Longrightarrow> classify P a = Unicast"
    for a
    by (cases "classify P a") simp_all
  show ?thesis
    unfolding resolveAndValidateHost_lookup [OF assms(1,2) invalid] assms(3)
    by (cases "dns_lookup W t (toLowerCase (hostname parsed))")
      (auto simp: isPrivateIP_classify list_all_iff dest: cls)
qed

lemma classify_examples:
  "classify node_platform ''example.com'' = Invalid"
  "classify node_platform ''93.184.216.34'' = Unicast"
  "classify node_platform ''10.0.0.1'' = Private"
  by (simp_all add: classify_def js_string_defs node_ip_defs)

lemma strip_brackets_examples [simp]:
  "strip_brackets ''example.com'' = ''example.com''"
  "strip_brackets ''93.184.216.34'' = ''93.184.216.34''"
  "strip_brackets ''10.0.0.1'' = ''10.0.0.1''"
  by (simp_all add: strip_brackets_def js_string_defs)

lemma toLowerCase_example_com [simp]: "toLowerCase ''example.com'' = ''example.com''"
  by (simp add: js_string_defs)

theorem resolveAndValidateHost_fails_closed_witness:
  "\<not> fst (resolveAndValidateHost node_platform (simple_world LookupFails evil_site) []
          ''https://example.com/x.png'')
   \<and> \<not> fst (resolveAndValidateHost node_platform (simple_world (LookupAddresses []) evil_site) []
          ''https://example.com/x.png'')
   \<and> \<not> fst (resolveAndValidateHost node_platform
          (simple_world (LookupAddresses [''93.184.216.34'', ''10.0.0.1'']) evil_site) []
          ''https://example.com/x.png'')
   \<and> fst (resolveAndValidateHost node_platform (simple_world public_dns evil_site) []
          ''https://example.com/x.png'')
   \<and> classify node_platform (strip_brackets ''93.184.216.34'') = Unicast"
  using
    resolveAndValidateHost_fails_closed [of node_platform "''https://example.com/x.png''"
      "\<lparr>protocol = ''https:'', hostname = ''example.com''\<rparr>" "''example.com''"
      "simple_world LookupFails evil_site" "[]"]
    resolveAndValidateHost_fails_closed [of node_platform "''https://example.com/x.png''"
      "\<lparr>protocol = ''https:'', hostname = ''example.com''\<rparr>" "''example.com''"
      "simple_world (LookupAddresses []) evil_site" "[]"]
    resolveAndValidateHost_fails_closed [of node_platform "''https://example.com/x.png''"
      "\<lparr>protocol = ''https:'', hostname = ''example.com''\<rparr>" "''example.com''"
      "simple_world (LookupAddresses [''93.184.216.34'', ''10.0.0.1'']) evil_site" "[]"]
    resolveAndValidateHost_fails_closed [of node_platform "''https://example.com/x.png''"
      "\<lparr>protocol = ''https:'', hostname = ''example.com''\<rparr>" "''example.com''"
      "simple_world public_dns evil_site" "[]"]
  by (simp add: parse_example_com classify_examples simple_world_def public_dns_def
      resolveAndValidateHost_def Let_def example_com_no_address isPrivateIP_classify)

section \<open>The handler before it reaches the network\<close>

lemma parse_loopback_url:
  "node_url_parse ''http://127.0.0.1/admin''
   = Some \<lparr>protocol = ''http:'', hostname = ''127.0.0.1''\<rparr>"
  by (simp add: js_string_defs node_url_defs Let_def)

lemma loopback_range:
  "ipaddr_isValid node_platform ''127.0.0.1''"
  "ipaddr_range node_platform ''127.0.0.1'' = ''loopback''"
  by (simp_all add: js_string_defs node_ip_defs)

lemma allowed_loopback_url: "\<not> isAllowedImageUrl node_platform ''http://127.0.0.1/admin''"
  by (simp add: isAllowedImageUrl_def isPrivateIP_def parse_loopback_url loopback_range
      js_string_defs strip_brackets_def Let_def del: node_platform_sel(3,4))

lemma verify_sign_self: "verifyImageUrl u (signImageUrl u s) s \<longleftrightarrow> s \<noteq> []"
  by (simp add: verifyImageUrl_def Let_def signImageUrl_nonempty)

lemma verify_wrong_length: "length sig \<noteq> 64 \<Longrightarrow> \<not> verifyImageUrl u sig s"
  by (auto simp: verifyImageUrl_def Let_def length_signImageUrl)

lemma handler_unsigned:
  assumes "first_value (q_url q) = Some url" and "url \<noteq> []"
    and "verification_fails C url (first_value (q_sig q))"
  shows "handler P W C q
         = (Inl (if first_value (q_sig q) = None \<or> first_value (q_sig q) = Some []
                 then H3Error 400 (missing_parameter ''sig'')
                 else H3Error 403 ''Invalid signature.''), [])"
  using assms by (auto simp: handler_def verification_fails_def split: option.splits)

section \<open>Properties of the redirect loop\<close>

lemma fetch_count_validator [simp]:
  "filter is_fetch (snd (resolveAndValidateHost P W t url)) = filter is_fetch t"
  using resolveAndValidateHost_trace [of P W t url] by auto

lemma validator_result_count:
  "resolveAndValidateHost P W t url = (v, t2) \<Longrightarrow> filter is_fetch t2 = filter is_fetch t"
  using fetch_count_validator [of P W t url] by simp

lemma fetch_count_cancel [simp]: "filter is_fetch (cancel_body r t) = filter is_fetch t"
  by (simp add: cancel_body_def split: option.splits)

lemma redirect_loop_fetch_count:
  "length (filter is_fetch (snd (redirect_loop P W i cur resp t)))
   \<le> length (filter is_fetch t) + (Suc MAX_REDIRECTS - i)"
proof (induction P W i cur resp t rule: redirect_loop.induct)
  case (1 P W i currentUrl resp t)
  show ?case
  proof (cases "i \<le> MAX_REDIRECTS")
    case False
    then show ?thesis by (subst redirect_loop.simps) simp
  next
    case le: True
    show ?thesis
    proof (cases "http_fetch W t currentUrl")
      case FetchThrows
      with le show ?thesis by (subst redirect_loop.simps) simp
    next
      case (FetchResponse r)
      show ?thesis
      proof (cases "status r \<in> REDIRECT_STATUSES \<and> (\<exists>loc. location r = Some loc \<and> loc \<noteq> []
            \<and> (\<exists>target. url_resolve P loc currentUrl = Some target \<and> isAllowedImageUrl P target
                 \<and> fst (resolveAndValidateHost P W (t @ [HttpFetch currentUrl]) target)))")
        case False
        with le FetchResponse show ?thesis
          by (subst redirect_loop.simps)
            (auto simp: Let_def case_prod_beta split: option.splits)
      next
        case True
        then obtain loc target where
          st: "status r \<in> REDIRECT_STATUSES" and loc: "location r = Some loc" "loc \<noteq> []"
          and target: "url_resolve P loc currentUrl = Some target" "isAllowedImageUrl P target"
          and valid: "fst (resolveAndValidateHost P W (t @ [HttpFetch currentUrl]) target)"
          by blast
        obtain t2 where t2: "resolveAndValidateHost P W (t @ [HttpFetch currentUrl]) target = (True, t2)"
          using valid by (cases "resolveAndValidateHost P W (t @ [HttpFetch currentUrl]) target") auto
        have count: "filter is_fetch t2 = filter is_fetch (t @ [HttpFetch currentUrl])"
          using fetch_count_validator [of P W "t @ [HttpFetch currentUrl]" target] t2 by simp
        have step: "redirect_loop P W i currentUrl resp t
                    = redirect_loop P W (i + 1) target (Some r) (cancel_body r t2)"
          using le FetchResponse st loc target t2 by (subst redirect_loop.simps) simp
        have "length (filter is_fetch (snd (redirect_loop P W (i + 1) target (Some r) (cancel_body r t2))))
              \<le> length (filter is_fetch (cancel_body r t2)) + (Suc MAX_REDIRECTS - (i + 1))"
          using "1.IH" [OF le FetchResponse refl _ loc target(1) _ t2 [symmetric]] st loc target
          by simp
        with le count show ?thesis unfolding step by simp
      qed
    qed
  qed
qed

lemma after_loop_fetch_count [simp]:
  "filter is_fetch (snd (after_loop C resp t)) = filter is_fetch t"
  by (simp add: after_loop_def Let_def split: option.splits)

lemma catch_block_snd [simp]: "snd (catch_block res) = snd res"
  by (simp add: catch_block_def split: prod.splits sum.splits failure.splits)

lemma try_block_fetch_count:
  "length (filter is_fetch (snd (try_block P W C url t)))
   \<le> length (filter is_fetch t) + Suc MAX_REDIRECTS"
  using redirect_loop_fetch_count [of P W 0 url None t]
  by (auto simp: try_block_def split: prod.splits sum.splits)

lemma handler_fetch_count:
  "length (filter is_fetch (snd (handler P W C q))) \<le> MAX_REDIRECTS + 1"
proof -
  have "length (filter is_fetch (snd (try_block P W C url (snd (resolveAndValidateHost P W [] url)))))
        \<le> Suc MAX_REDIRECTS" for url
    using try_block_fetch_count [of P W C url "snd (resolveAndValidateHost P W [] url)"] by simp
  then show ?thesis
    by (auto simp: handler_def case_prod_beta split: option.splits)
qed



lemma handler_accepted:
  "accepted_request P W C q url \<Longrightarrow>
   handler P W C q = catch_block (try_block P W C url (snd (resolveAndValidateHost P W [] url)))"
  by (auto simp: accepted_request_def handler_def split: prod.splits)


text \<open>Whenever the loop leaves a response with a redirect status, what follows it
  answers 502 \<open>Too many redirects.\<close>, never a success.\<close>

lemma after_loop_redirect:
  "status r \<in> REDIRECT_STATUSES \<Longrightarrow>
   fst (after_loop C (Some r) t) = Inl (H3Error 502 ''Too many redirects.'')"
  by (simp add: after_loop_def)

text \<open>The chain of six redirects on the reference platform.\<close>

lemma parse_chain_urls:
  "node_url_parse ''https://example.com/0''
   = Some \<lparr>protocol = ''https:'', hostname = ''example.com''\<rparr>"
  "node_url_parse ''https://example.com/1''
   = Some \<lparr>protocol = ''https:'', hostname = ''example.com''\<rparr>"
  "node_url_parse ''https://example.com/2''
   = Some \<lparr>protocol = ''https:'', hostname = ''example.com''\<rparr>"
  "node_url_parse ''https://example.com/3''
   = Some \<lparr>protocol = ''https:'', hostname = ''example.com''\<rparr>"
  "node_url_parse ''https://example.com/4''
   = Some \<lparr>protocol = ''https:'', hostname = ''example.com''\<rparr>"
  "node_url_parse ''https://example.com/5''
   = Some \<lparr>protocol = ''https:'', hostname = ''example.com''\<rparr>"
  "node_url_parse ''https://example.com/6''
   = Some \<lparr>protocol = ''https:'', hostname = ''example.com''\<rparr>"
  by (simp_all add: js_string_defs node_url_defs Let_def)

lemma simple_world_sel [simp]:
  "dns_lookup (simple_world answer site) t h = answer"
  "http_fetch (simple_world answer site) t u = site u"
  by (simp_all add: simple_world_def)

lemma public_dns_validates:
  assumes "node_url_parse url = Some \<lparr>protocol = p, hostname = h\<rparr>" and "h \<noteq> []"
    and "ipaddr_octets (strip_brackets (toLowerCase h)) = None"
  shows "resolveAndValidateHost node_platform (simple_world public_dns site) t url
         = (True, t @ [DnsLookup (toLowerCase h)])"
  using assms
  by (simp add: resolveAndValidateHost_def Let_def public_dns_def
      isPrivateIP_classify classify_examples)

lemma example_com_allowed:
  "node_url_parse url = Some \<lparr>protocol = ''https:'', hostname = ''example.com''\<rparr>
   \<Longrightarrow> isAllowedImageUrl node_platform url"
  by (simp add: isAllowedImageUrl_def isPrivateIP_def example_com_no_address js_string_defs
      Let_def)

lemma example_com_validates:
  "node_url_parse url = Some \<lparr>protocol = ''https:'', hostname = ''example.com''\<rparr>
   \<Longrightarrow> resolveAndValidateHost node_platform (simple_world public_dns site) t url
       = (True, t @ [DnsLookup ''example.com''])"
  using public_dns_validates [of url "''https:''" "''example.com''" site t]
  by (simp add: example_com_no_address)

lemma resolve_chain:
  "node_url_resolve ''/1'' ''https://example.com/0'' = Some ''https://example.com/1''"
  "node_url_resolve ''/2'' ''https://example.com/1'' = Some ''https://example.com/2''"
  "node_url_resolve ''/3'' ''https://example.com/2'' = Some ''https://example.com/3''"
  "node_url_resolve ''/4'' ''https://example.com/3'' = Some ''https://example.com/4''"
  "node_url_resolve ''/5'' ''https://example.com/4'' = Some ''https://example.com/5''"
  "node_url_resolve ''/6'' ''https://example.com/5'' = Some ''https://example.com/6''"
  by (simp_all add: js_string_defs node_url_defs Let_def)

lemma signed_request_accepted:
  assumes "secret \<noteq> []" and "url \<noteq> []" and "isAllowedImageUrl P url"
    and "fst (resolveAndValidateHost P W [] url)"
  shows "accepted_request P W \<lparr>imageProxySecret = secret, CACHE_MAX_AGE_ONE_DAY = n\<rparr>
           (signed_request url secret) url"
  using assms
  by (simp add: accepted_request_def signed_request_def verify_sign_self signImageUrl_nonempty)

lemma chain_request_accepted:
  assumes "node_url_parse url = Some \<lparr>protocol = ''https:'', hostname = ''example.com''\<rparr>"
  shows "accepted_request node_platform (simple_world public_dns site) example_config
           (signed_request url ''secret'') url"
proof -
  from assms have "url \<noteq> []"
    by (auto simp: node_url_defs)
  then show ?thesis
    unfolding example_config_def
    by (intro signed_request_accepted)
      (simp_all add: example_com_allowed [OF assms] example_com_validates [OF assms])
qed

lemma six_hop_site_answers:
  "six_hop_site ''https://example.com/0'' = FetchResponse (redirect_to ''/1'')"
  "six_hop_site ''https://example.com/1'' = FetchResponse (redirect_to ''/2'')"
  "six_hop_site ''https://example.com/2'' = FetchResponse (redirect_to ''/3'')"
  "six_hop_site ''https://example.com/3'' = FetchResponse (redirect_to ''/4'')"
  "six_hop_site ''https://example.com/4'' = FetchResponse (redirect_to ''/5'')"
  "six_hop_site ''https://example.com/5'' = FetchResponse (redirect_to ''/6'')"
  "six_hop_site ''https://example.com/6''
   = FetchResponse (image_response ''image/png'' None small_body)"
  by (simp_all add: six_hop_site_def)

lemma redirect_to_sel [simp]:
  "status (redirect_to loc) \<in> REDIRECT_STATUSES"
  "location (redirect_to loc) = Some loc"
  "cancel_body (redirect_to loc) t = t"
  by (simp_all add: redirect_to_def REDIRECT_STATUSES_def cancel_body_def)



text \<open>Five redirects are followed to the image, with the sixth fetch.\<close>

lemma run_five_hops:
  "handler node_platform (simple_world public_dns six_hop_site) example_config
     (signed_request ''https://example.com/1'' ''secret'')
   = (Inr \<lparr>response_headers = success_headers example_config ''image/png'',
            upstream_body = small_body\<rparr>,
      [DnsLookup ''example.com'', HttpFetch ''https://example.com/1'',
       DnsLookup ''example.com'', HttpFetch ''https://example.com/2'',
       DnsLookup ''example.com'', HttpFetch ''https://example.com/3'',
       DnsLookup ''example.com'', HttpFetch ''https://example.com/4'',
       DnsLookup ''example.com'', HttpFetch ''https://example.com/5'',
       DnsLookup ''example.com'', HttpFetch ''https://example.com/6''])"
  unfolding handler_accepted [OF chain_request_accepted [OF parse_chain_urls(2)]]
  by (simp add: example_com_validates parse_chain_urls try_block_def catch_block_def
      redirect_loop.simps MAX_REDIRECTS_def six_hop_site_answers resolve_chain
      example_com_allowed redirect_to_def cancel_body_def image_response_def
      REDIRECT_STATUSES_def after_loop_def
      response_ok_def declared_too_large_def contentType_of_def js_string_defs sublist_code)



section \<open>Every fetch is validated first\<close>

lemma fetches_validated_append:
  "fetches_validated P W pre (xs @ ys)
   \<longleftrightarrow> fetches_validated P W pre xs \<and> fetches_validated P W (pre @ xs) ys"
proof (induction xs arbitrary: pre)
  case Nil
  show ?case by simp
next
  case (Cons a xs)
  show ?case using Cons.IH [of "pre @ [a]"] by (cases a) simp_all
qed

lemma validator_extends:
  "resolveAndValidateHost P W t url = (v, t2) \<Longrightarrow> \<exists>ext. t2 = t @ ext \<and> filter is_fetch ext = []"
  using resolveAndValidateHost_trace [of P W t url] by auto

lemma cancel_body_extends: "\<exists>ext. cancel_body r t = t @ ext \<and> filter is_fetch ext = []"
  by (auto simp: cancel_body_def split: option.splits)

lemma no_fetch_validated: "filter is_fetch ext = [] \<Longrightarrow> fetches_validated P W pre ext"
proof (induction ext arbitrary: pre)
  case Nil
  show ?case by simp
next
  case (Cons a ext)
  then show ?case by (cases a) (simp_all split: if_splits)
qed

lemma redirect_loop_validates:
  "validated P W t cur \<Longrightarrow>
   \<exists>ext. snd (redirect_loop P W i cur resp t) = t @ ext \<and> fetches_validated P W t ext"
proof (induction P W i cur resp t rule: redirect_loop.induct)
  case (1 P W i currentUrl resp t)
  note cur = \<open>validated P W t currentUrl\<close>
  have one: "fetches_validated P W t [HttpFetch currentUrl]"
    using cur by simp
  show ?case
  proof (cases "i \<le> MAX_REDIRECTS")
    case False
    then show ?thesis by (subst redirect_loop.simps) simp
  next
    case le: True
    show ?thesis
    proof (cases "http_fetch W t currentUrl")
      case FetchThrows
      with le one show ?thesis by (subst redirect_loop.simps) simp
    next
      case (FetchResponse r)
      show ?thesis
      proof (cases "status r \<in> REDIRECT_STATUSES \<and> (\<exists>loc. location r = Some loc \<and> loc \<noteq> []
            \<and> (\<exists>target. url_resolve P loc currentUrl = Some target \<and> isAllowedImageUrl P target))")
        case False
        with le FetchResponse one show ?thesis
          by (subst redirect_loop.simps) (auto simp: Let_def split: option.splits)
      next
        case True
        then obtain loc target where
          st: "status r \<in> REDIRECT_STATUSES" and loc: "location r = Some loc" "loc \<noteq> []"
          and target: "url_resolve P loc currentUrl = Some target" "isAllowedImageUrl P target"
          by blast
        obtain v t2 where
          t2: "resolveAndValidateHost P W (t @ [HttpFetch currentUrl]) target = (v, t2)"
          by (cases "resolveAndValidateHost P W (t @ [HttpFetch currentUrl]) target") auto
        obtain e1 where
          e1: "t2 = (t @ [HttpFetch currentUrl]) @ e1" "filter is_fetch e1 = []"
          using validator_extends [OF t2] by blast
        show ?thesis
        proof (cases v)
          case False
          have "fetches_validated P W t ([HttpFetch currentUrl] @ e1)"
            unfolding fetches_validated_append using one e1(2) by (simp add: no_fetch_validated)
          with le FetchResponse st loc target t2 False e1(1) show ?thesis
            by (subst redirect_loop.simps) simp
        next
          case True
          define t3 where "t3 = cancel_body r t2"
          obtain e2 where e2: "t3 = t2 @ e2" "filter is_fetch e2 = []"
            using cancel_body_extends [of r t2] unfolding t3_def by blast
          have t3: "t3 = t @ ([HttpFetch currentUrl] @ (e1 @ e2))"
            using e1(1) e2(1) by simp
          have step: "redirect_loop P W i currentUrl resp t
                      = redirect_loop P W (i + 1) target (Some r) t3"
            unfolding t3_def
            using le FetchResponse st loc target t2 True by (subst redirect_loop.simps) simp
          have "validated P W t3 target"
            unfolding validated_def t3_def
            using target FetchResponse st loc(1) t2 True
            by (intro conjI disjI2 exI [of _ t] exI [of _ currentUrl] exI [of _ r]
                exI [of _ loc] exI [of _ t2]) simp_all
          from "1.IH" [OF le FetchResponse refl _ loc target(1) _ t2 [symmetric] _
              this [unfolded t3_def]] st loc target True
          obtain e3 where
            e3: "snd (redirect_loop P W (i + 1) target (Some r) t3) = t3 @ e3"
              "fetches_validated P W t3 e3"
            unfolding t3_def by auto
          have "fetches_validated P W t ([HttpFetch currentUrl] @ (e1 @ e2))"
            unfolding fetches_validated_append using one e1(2) e2(2)
            by (simp add: no_fetch_validated)
          then have "fetches_validated P W t (([HttpFetch currentUrl] @ (e1 @ e2)) @ e3)"
            unfolding fetches_validated_append [of P W t "[HttpFetch currentUrl] @ (e1 @ e2)"]
            using e3(2) unfolding t3 by simp
          moreover have "snd (redirect_loop P W i currentUrl resp t) = t3 @ e3"
            by (simp only: step e3(1))
          then have "snd (redirect_loop P W i currentUrl resp t)
                     = t @ (([HttpFetch currentUrl] @ (e1 @ e2)) @ e3)"
            unfolding t3 by simp
          ultimately show ?thesis by blast
        qed
      qed
    qed
  qed
qed

lemma after_loop_extends:
  "\<exists>ext. snd (after_loop C resp t) = t @ ext \<and> filter is_fetch ext = []"
  using cancel_body_extends [of _ t]
  by (auto simp: after_loop_def Let_def split: option.splits)

lemma try_block_validates:
  assumes "validated P W t url"
  shows "\<exists>ext. snd (try_block P W C url t) = t @ ext \<and> fetches_validated P W t ext"
proof -
  obtain e1 where
    e1: "snd (redirect_loop P W 0 url None t) = t @ e1" "fetches_validated P W t e1"
    using redirect_loop_validates [OF assms] by blast
  show ?thesis
  proof (cases "fst (redirect_loop P W 0 url None t)")
    case (Inl e)
    with e1 show ?thesis
      by (auto simp: try_block_def split: prod.splits)
  next
    case (Inr resp)
    obtain e2 where
      e2: "snd (after_loop C resp (t @ e1)) = (t @ e1) @ e2" "filter is_fetch e2 = []"
      using after_loop_extends by blast
    have "fetches_validated P W t (e1 @ e2)"
      unfolding fetches_validated_append using e1(2) e2(2) by (simp add: no_fetch_validated)
    moreover have "snd (try_block P W C url t) = t @ (e1 @ e2)"
      using Inr e1(1) e2(1) by (auto simp: try_block_def split: prod.splits)
    ultimately show ?thesis by blast
  qed
qed

lemma handler_validates: "fetches_validated P W [] (snd (handler P W C q))"
proof -
  have "fetches_validated P W []
          (snd (try_block P W C url (snd (resolveAndValidateHost P W [] url))))"
    if allowed: "isAllowedImageUrl P url" and ok: "fst (resolveAndValidateHost P W [] url)"
    for url
  proof -
    obtain t0 where t0: "resolveAndValidateHost P W [] url = (True, t0)"
      using ok by (cases "resolveAndValidateHost P W [] url") auto
    have no_fetch: "filter is_fetch t0 = []"
      using validator_result_count [OF t0] by simp
    have "validated P W t0 url"
      unfolding validated_def using allowed t0 by simp
    then obtain ext where
      "snd (try_block P W C url t0) = t0 @ ext" "fetches_validated P W t0 ext"
      using try_block_validates by blast
    then show ?thesis
      using t0 no_fetch by (simp add: fetches_validated_append no_fetch_validated)
  qed
  moreover have "fetches_validated P W [] (snd (resolveAndValidateHost P W [] url))" for url
    by (rule no_fetch_validated) simp
  ultimately show ?thesis
    by (auto simp: handler_def case_prod_beta split: option.splits)
qed

lemma handler_fetch_validated:
  assumes "snd (handler P W C q) = pre @ HttpFetch u # post"
  shows "validated P W pre u"
  using handler_validates [of P W C q]
  unfolding assms fetches_validated_append by simp

text \<open>
  What being validated comes to.  Before the first fetch the trace has no fetch, and
  the call is the one on the empty trace.  Before a later fetch the trace ends with
  the previous fetch and what followed it; the previous fetch and the trace before it
  are determined by that, and so is the call: the one made right after the previous
  fetch, on the target that its answer redirects to.
\<close>

lemma last_fetch_unique:
  "t @ HttpFetch c # s = t' @ HttpFetch c' # s' \<Longrightarrow> filter is_fetch s = [] \<Longrightarrow>
   filter is_fetch s' = [] \<Longrightarrow> t = t' \<and> c = c' \<and> s = s'"
proof (induction t arbitrary: t')
  case Nil
  then show ?case by (cases t') auto
next
  case (Cons a t)
  then show ?case by (cases t') auto
qed

lemma validated_request:
  assumes "validated P W pre u" and "filter is_fetch pre = []"
  shows "resolveAndValidateHost P W [] u = (True, pre)"
proof -
  have False
    if "resolveAndValidateHost P W (t @ [HttpFetch cur]) u = (True, t1)" and "pre = cancel_body r t1"
    for t cur r t1
    using validator_result_count [OF that(1)] assms(2) that(2) by simp
  with assms(1) show ?thesis
    unfolding validated_def by blast
qed

lemma validated_target:
  assumes "validated P W (t @ HttpFetch cur # s) u" and "filter is_fetch s = []"
  shows "isAllowedImageUrl P u
         \<and> (\<exists>r loc t1. http_fetch W t cur = FetchResponse r \<and> status r \<in> REDIRECT_STATUSES
               \<and> location r = Some loc \<and> url_resolve P loc cur = Some u
               \<and> resolveAndValidateHost P W (t @ [HttpFetch cur]) u = (True, t1)
               \<and> t @ HttpFetch cur # s = cancel_body r t1)"
proof -
  have first: "resolveAndValidateHost P W [] u \<noteq> (True, t @ HttpFetch cur # s)"
    using validator_result_count [of P W "[]" u True "t @ HttpFetch cur # s"] by auto
  from assms(1) first obtain t' cur' r loc t1 where
    r: "http_fetch W t' cur' = FetchResponse r" "status r \<in> REDIRECT_STATUSES"
      "location r = Some loc" "url_resolve P loc cur' = Some u"
    and t1: "resolveAndValidateHost P W (t' @ [HttpFetch cur']) u = (True, t1)"
    and pre: "t @ HttpFetch cur # s = cancel_body r t1"
    and allowed: "isAllowedImageUrl P u"
    unfolding validated_def by blast
  obtain e1 where e1: "t1 = (t' @ [HttpFetch cur']) @ e1" "filter is_fetch e1 = []"
    using validator_extends [OF t1] by blast
  obtain e2 where e2: "cancel_body r t1 = t1 @ e2" "filter is_fetch e2 = []"
    using cancel_body_extends [of r t1] by blast
  have "t @ HttpFetch cur # s = t' @ HttpFetch cur' # (e1 @ e2)"
    using pre e1(1) e2(1) by simp
  from last_fetch_unique [OF this assms(2)] e1(2) e2(2)
  have "t = t'" "cur = cur'" by simp_all
  with r t1 pre allowed show ?thesis by blast
qed

text \<open>Two runs on the reference platform: a redirect to the loopback address, and a
  redirect without a scheme that is followed.\<close>

lemma parse_site_urls:
  "node_url_parse ''https://evil.example/a.png''
   = Some \<lparr>protocol = ''https:'', hostname = ''evil.example''\<rparr>"
  "node_url_parse ''http://a.example/a.png''
   = Some \<lparr>protocol = ''http:'', hostname = ''a.example''\<rparr>"
  "node_url_parse ''http://cdn.example/b.png''
   = Some \<lparr>protocol = ''http:'', hostname = ''cdn.example''\<rparr>"
  by (simp_all add: js_string_defs node_url_defs Let_def)

lemma site_hosts_no_address:
  "ipaddr_octets ''evil.example'' = None"
  "ipaddr_octets ''a.example'' = None"
  "ipaddr_octets ''cdn.example'' = None"
  by (simp_all add: js_string_defs node_ip_defs)

lemma site_hosts_lower [simp]:
  "toLowerCase ''evil.example'' = ''evil.example''"
  "toLowerCase ''a.example'' = ''a.example''"
  "toLowerCase ''cdn.example'' = ''cdn.example''"
  "strip_brackets ''evil.example'' = ''evil.example''"
  "strip_brackets ''a.example'' = ''a.example''"
  "strip_brackets ''cdn.example'' = ''cdn.example''"
  by (simp_all add: js_string_defs strip_brackets_def)

lemma allowed_site_urls:
  "isAllowedImageUrl node_platform ''https://evil.example/a.png''"
  "isAllowedImageUrl node_platform ''http://a.example/a.png''"
  "isAllowedImageUrl node_platform ''http://cdn.example/b.png''"
  by (simp_all add: isAllowedImageUrl_def isPrivateIP_def parse_site_urls
      site_hosts_no_address js_string_defs Let_def)

lemma validate_site_urls:
  "resolveAndValidateHost node_platform (simple_world public_dns site) t
     ''https://evil.example/a.png'' = (True, t @ [DnsLookup ''evil.example''])"
  "resolveAndValidateHost node_platform (simple_world public_dns site) t
     ''http://a.example/a.png'' = (True, t @ [DnsLookup ''a.example''])"
  "resolveAndValidateHost node_platform (simple_world public_dns site) t
     ''http://cdn.example/b.png'' = (True, t @ [DnsLookup ''cdn.example''])"
  using public_dns_validates [OF parse_site_urls(1), of site t]
    public_dns_validates [OF parse_site_urls(2), of site t]
    public_dns_validates [OF parse_site_urls(3), of site t]
  by (simp_all add: site_hosts_no_address)

lemma resolve_site_locations:
  "node_url_resolve ''http://127.0.0.1/admin'' ''https://evil.example/a.png''
   = Some ''http://127.0.0.1/admin''"
  "node_url_resolve ''//cdn.example/b.png'' ''http://a.example/a.png''
   = Some ''http://cdn.example/b.png''"
  by (simp_all add: js_string_defs node_url_defs Let_def)

lemma image_png_allowed [simp]:
  "startsWith ''image/png'' ''image/''" "\<not> includesStr ''image/png'' ''svg''"
  by (simp_all add: js_string_defs sublist_code)

lemma run_loopback_redirect:
  "handler node_platform (simple_world public_dns evil_site) example_config
     (signed_request ''https://evil.example/a.png'' ''secret'')
   = (Inl (H3Error 400 ''Redirect to disallowed URL.''),
      [DnsLookup ''evil.example'', HttpFetch ''https://evil.example/a.png''])"
proof -
  have "accepted_request node_platform (simple_world public_dns evil_site) example_config
          (signed_request ''https://evil.example/a.png'' ''secret'') ''https://evil.example/a.png''"
    unfolding example_config_def
    by (rule signed_request_accepted) (simp_all add: allowed_site_urls validate_site_urls)
  then show ?thesis
    unfolding handler_accepted [OF \<open>accepted_request _ _ _ _ _\<close>]
    by (simp add: validate_site_urls try_block_def catch_block_def redirect_loop.simps
        MAX_REDIRECTS_def REDIRECT_STATUSES_def evil_site_def redirect_to_def
        resolve_site_locations allowed_loopback_url)
qed

lemma run_relative_redirect:
  "handler node_platform (simple_world public_dns relative_site) example_config
     (signed_request ''http://a.example/a.png'' ''secret'')
   = (Inr \<lparr>response_headers = success_headers example_config ''image/png'',
            upstream_body = small_body\<rparr>,
      [DnsLookup ''a.example'', HttpFetch ''http://a.example/a.png'',
       DnsLookup ''cdn.example'', HttpFetch ''http://cdn.example/b.png''])"
proof -
  have "accepted_request node_platform (simple_world public_dns relative_site) example_config
          (signed_request ''http://a.example/a.png'' ''secret'') ''http://a.example/a.png''"
    unfolding example_config_def
    by (rule signed_request_accepted) (simp_all add: allowed_site_urls validate_site_urls)
  then show ?thesis
    unfolding handler_accepted [OF \<open>accepted_request _ _ _ _ _\<close>]
    by (simp add: validate_site_urls try_block_def catch_block_def redirect_loop.simps
        MAX_REDIRECTS_def REDIRECT_STATUSES_def relative_site_def redirect_to_def
        resolve_site_locations allowed_site_urls cancel_body_def image_response_def
        after_loop_def response_ok_def declared_too_large_def contentType_of_def)
qed

text \<open>The world that rebinds: the target of the redirect is on the host of the request,
  which validated before the first fetch; the call made for the target answers
  \<open>false\<close>, and the target is not fetched.\<close>

lemma parse_rebound_urls:
  "node_url_parse ''https://evil.example/b.png''
   = Some \<lparr>protocol = ''https:'', hostname = ''evil.example''\<rparr>"
  "node_url_resolve ''/b.png'' ''https://evil.example/a.png'' = Some ''https://evil.example/b.png''"
  by (simp_all add: js_string_defs node_url_defs Let_def)

lemma allowed_rebound_url: "isAllowedImageUrl node_platform ''https://evil.example/b.png''"
  by (simp add: isAllowedImageUrl_def isPrivateIP_def parse_rebound_urls
      site_hosts_no_address js_string_defs Let_def)

lemma loopback_private: "classify node_platform (strip_brackets ''127.0.0.1'') = Private"
  by (simp add: classify_def js_string_defs node_ip_defs)

lemma validate_rebinding:
  "resolveAndValidateHost node_platform rebinding_world [] ''https://evil.example/a.png''
   = (True, [DnsLookup ''evil.example''])"
  "resolveAndValidateHost node_platform rebinding_world
     [DnsLookup ''evil.example'', HttpFetch ''https://evil.example/a.png'']
     ''https://evil.example/b.png''
   = (False, [DnsLookup ''evil.example'', HttpFetch ''https://evil.example/a.png'',
              DnsLookup ''evil.example''])"
  by (simp_all add: resolveAndValidateHost_def parse_site_urls parse_rebound_urls
      site_hosts_no_address rebinding_world_def public_dns_def isPrivateIP_classify
      classify_examples loopback_private Let_def)

lemma run_rebinding_redirect:
  "handler node_platform rebinding_world example_config
     (signed_request ''https://evil.example/a.png'' ''secret'')
   = (Inl (H3Error 400 ''Redirect to disallowed URL.''),
      [DnsLookup ''evil.example'', HttpFetch ''https://evil.example/a.png'',
       DnsLookup ''evil.example''])"
proof -
  have "accepted_request node_platform rebinding_world example_config
          (signed_request ''https://evil.example/a.png'' ''secret'') ''https://evil.example/a.png''"
    unfolding example_config_def
    by (rule signed_request_accepted) (simp_all add: allowed_site_urls validate_rebinding)
  then show ?thesis
    unfolding handler_accepted [OF \<open>accepted_request _ _ _ _ _\<close>]
    by (simp add: validate_rebinding try_block_def catch_block_def redirect_loop.simps
        MAX_REDIRECTS_def rebinding_world_def [THEN arg_cong, of http_fetch] redirect_to_def
        REDIRECT_STATUSES_def parse_rebound_urls allowed_rebound_url)
qed

text \<open>
  C2.  Whenever the handler fetches a URL, the guard has allowed that URL and the call
  of \<open>resolveAndValidateHost\<close> made for this fetch has answered \<open>true\<close>.  For the
  first fetch it is the call on the empty trace, and the fetch follows the trace it
  left.  For a fetch that follows the fetch of \<open>cur\<close>, with no other fetch between
  them, the fetch of \<open>cur\<close> was answered with a redirect whose \<open>Location\<close> resolves
  against \<open>cur\<close> to the URL now fetched, the call was made on that URL on the trace
  that ends with the fetch of \<open>cur\<close>, it answered \<open>true\<close>, and nothing but the
  cancelling of the body of the redirect lies between the call and the fetch.  In the
  scenario of the specification, the request for \<open>https://evil.example/a.png\<close>,
  which redirects to \<open>http://127.0.0.1/admin\<close>, fails with 400
  \<open>Redirect to disallowed URL.\<close>, and its trace is one lookup and one fetch of
  \<open>evil.example\<close>: nothing is sent to the loopback address.  And in the world that
  rebinds, the host that validated for the request is looked up again for the target
  of the redirect, now answers with the loopback address, and the target is not
  fetched.
\<close>

theorem fetches_are_validated:
  "(snd (handler P W C q) = pre @ HttpFetch u # post \<longrightarrow> validated P W pre u)
   \<and> (snd (handler P W C q) = pre @ HttpFetch u # post \<and> filter is_fetch pre = []
        \<longrightarrow> isAllowedImageUrl P u \<and> resolveAndValidateHost P W [] u = (True, pre))
   \<and> (snd (handler P W C q) = t @ HttpFetch cur # s @ HttpFetch u # post
        \<and> filter is_fetch s = []
        \<longrightarrow> isAllowedImageUrl P u
            \<and> (\<exists>r loc t1. http_fetch W t cur = FetchResponse r
                  \<and> status r \<in> REDIRECT_STATUSES
                  \<and> location r = Some loc \<and> url_resolve P loc cur = Some u
                  \<and> resolveAndValidateHost P W (t @ [HttpFetch cur]) u = (True, t1)
                  \<and> t @ HttpFetch cur # s = cancel_body r t1))
   \<and> handler node_platform (simple_world public_dns evil_site) example_config
        (signed_request ''https://evil.example/a.png'' ''secret'')
      = (Inl (H3Error 400 ''Redirect to disallowed URL.''),
         [DnsLookup ''evil.example'', HttpFetch ''https://evil.example/a.png''])
   \<and> handler node_platform rebinding_world example_config
        (signed_request ''https://evil.example/a.png'' ''secret'')
      = (Inl (H3Error 400 ''Redirect to disallowed URL.''),
         [DnsLookup ''evil.example'', HttpFetch ''https://evil.example/a.png'',
          DnsLookup ''evil.example''])"
proof -
  have any: "validated P W pre u" if "snd (handler P W C q) = pre @ HttpFetch u # post"
    using handler_fetch_validated [OF that] .
  have first: "isAllowedImageUrl P u \<and> resolveAndValidateHost P W [] u = (True, pre)"
    if "snd (handler P W C q) = pre @ HttpFetch u # post" and "filter is_fetch pre = []"
    using handler_fetch_validated [OF that(1)] validated_request [OF _ that(2)]
    by (simp add: validated_def)
  have later: "isAllowedImageUrl P u
            \<and> (\<exists>r loc t1. http_fetch W t cur = FetchResponse r
                  \<and> status r \<in> REDIRECT_STATUSES
                  \<and> location r = Some loc \<and> url_resolve P loc cur = Some u
                  \<and> resolveAndValidateHost P W (t @ [HttpFetch cur]) u = (True, t1)
                  \<and> t @ HttpFetch cur # s = cancel_body r t1)"
    if run: "snd (handler P W C q) = t @ HttpFetch cur # s @ HttpFetch u # post"
      and s: "filter is_fetch s = []"
  proof -
    from run have "snd (handler P W C q) = (t @ HttpFetch cur # s) @ HttpFetch u # post"
      by simp
    from validated_target [OF handler_fetch_validated [OF this] s] show ?thesis .
  qed
  from any first later run_loopback_redirect run_rebinding_redirect show ?thesis
    by blast
qed

theorem fetches_are_validated_witness:
  "snd (handler node_platform (simple_world public_dns relative_site) example_config
          (signed_request ''http://a.example/a.png'' ''secret''))
   = [DnsLookup ''a.example'', HttpFetch ''http://a.example/a.png'', DnsLookup ''cdn.example'',
      HttpFetch ''http://cdn.example/b.png'']
   \<and> filter is_fetch [DnsLookup ''a.example''] = []
   \<and> resolveAndValidateHost node_platform (simple_world public_dns relative_site) []
        ''http://a.example/a.png'' = (True, [DnsLookup ''a.example''])
   \<and> filter is_fetch [DnsLookup ''cdn.example''] = []
   \<and> validated node_platform (simple_world public_dns relative_site)
        [DnsLookup ''a.example'', HttpFetch ''http://a.example/a.png'', DnsLookup ''cdn.example'']
        ''http://cdn.example/b.png''
   \<and> isAllowedImageUrl node_platform ''http://cdn.example/b.png''
   \<and> (\<exists>r loc t1.
         http_fetch (simple_world public_dns relative_site) [DnsLookup ''a.example'']
           ''http://a.example/a.png'' = FetchResponse r
         \<and> status r \<in> REDIRECT_STATUSES \<and> location r = Some loc
         \<and> url_resolve node_platform loc ''http://a.example/a.png''
             = Some ''http://cdn.example/b.png''
         \<and> resolveAndValidateHost node_platform (simple_world public_dns relative_site)
              [DnsLookup ''a.example'', HttpFetch ''http://a.example/a.png'']
              ''http://cdn.example/b.png'' = (True, t1)
         \<and> [DnsLookup ''a.example'', HttpFetch ''http://a.example/a.png'',
               DnsLookup ''cdn.example''] = cancel_body r t1)"
proof -
  have run: "snd (handler node_platform (simple_world public_dns relative_site) example_config
          (signed_request ''http://a.example/a.png'' ''secret''))
   = [DnsLookup ''a.example'', HttpFetch ''http://a.example/a.png'', DnsLookup ''cdn.example'',
      HttpFetch ''http://cdn.example/b.png'']"
    by (simp add: run_relative_redirect)
  note first = fetches_are_validated [of node_platform "simple_world public_dns relative_site"
      example_config "signed_request ''http://a.example/a.png'' ''secret''"
      "[DnsLookup ''a.example'']" "''http://a.example/a.png''"
      "[DnsLookup ''cdn.example'', HttpFetch ''http://cdn.example/b.png'']"]
  note later = fetches_are_validated [of node_platform "simple_world public_dns relative_site"
      example_config "signed_request ''http://a.example/a.png'' ''secret''"
      "[DnsLookup ''a.example'', HttpFetch ''http://a.example/a.png'', DnsLookup ''cdn.example'']"
      "''http://cdn.example/b.png''" "[]" "[DnsLookup ''a.example'']" "''http://a.example/a.png''"
      "[DnsLookup ''cdn.example'']"]
  from first [THEN conjunct2, THEN conjunct1] run
  have a: "resolveAndValidateHost node_platform (simple_world public_dns relative_site) []
        ''http://a.example/a.png'' = (True, [DnsLookup ''a.example''])"
    by simp
  from later [THEN conjunct1] run
  have b: "validated node_platform (simple_world public_dns relative_site)
        [DnsLookup ''a.example'', HttpFetch ''http://a.example/a.png'', DnsLookup ''cdn.example'']
        ''http://cdn.example/b.png''"
    by simp
  from later [THEN conjunct2, THEN conjunct2, THEN conjunct1] run
  have c: "isAllowedImageUrl node_platform ''http://cdn.example/b.png''
   \<and> (\<exists>r loc t1.
         http_fetch (simple_world public_dns relative_site) [DnsLookup ''a.example'']
           ''http://a.example/a.png'' = FetchResponse r
         \<and> status r \<in> REDIRECT_STATUSES \<and> location r = Some loc
         \<and> url_resolve node_platform loc ''http://a.example/a.png''
             = Some ''http://cdn.example/b.png''
         \<and> resolveAndValidateHost node_platform (simple_world public_dns relative_site)
              [DnsLookup ''a.example'', HttpFetch ''http://a.example/a.png'']
              ''http://cdn.example/b.png'' = (True, t1)
         \<and> [DnsLookup ''a.example'', HttpFetch ''http://a.example/a.png'',
               DnsLookup ''cdn.example''] = cancel_body r t1)"
    by simp
  from run a b c show ?thesis by simp
qed

section \<open>No network before the signature\<close>

lemma network_only_after_verification:
  assumes "snd (handler P W C q) \<noteq> []"
  shows "\<exists>url s. first_value (q_url q) = Some url \<and> first_value (q_sig q) = Some s
           \<and> imageProxySecret C \<noteq> [] \<and> verifyImageUrl url s (imageProxySecret C)"
  using assms by (auto simp: handler_def split: option.splits if_splits)

text \<open>
  C6.  A request with a URL whose signature verification fails (the signature is
  missing, the secret is missing, or the tag does not match) is rejected with an
  authorization failure: 403 \<open>Invalid signature.\<close> when a signature was sent, 400 when
  none was.  The trace of the handler is empty: no DNS lookup and no fetch is made.
  The answer is the same for every platform and every world, so neither the URL
  policy guard nor the network has been consulted before it.  For every request,
  with a URL or without: a trace that is not empty belongs to a request whose
  signature has been verified.
\<close>

theorem signature_checked_first:
  "(first_value (q_url q) = Some url \<and> url \<noteq> []
      \<and> verification_fails C url (first_value (q_sig q))
     \<longrightarrow> (\<exists>e. handler P W C q = (Inl e, [])
            \<and> authorization_failure e
            \<and> (e = H3Error 403 ''Invalid signature.''
                 \<longleftrightarrow> (\<exists>s. first_value (q_sig q) = Some s \<and> s \<noteq> []))
            \<and> handler P' W' C q = handler P W C q))
   \<and> (snd (handler P W C q) \<noteq> []
        \<longrightarrow> (\<exists>url' s. first_value (q_url q) = Some url' \<and> first_value (q_sig q) = Some s
               \<and> imageProxySecret C \<noteq> [] \<and> verifyImageUrl url' s (imageProxySecret C)))"
proof (intro conjI impI)
  assume a: "first_value (q_url q) = Some url \<and> url \<noteq> []
      \<and> verification_fails C url (first_value (q_sig q))"
  then have *: "first_value (q_url q) = Some url" "url \<noteq> []"
    "verification_fails C url (first_value (q_sig q))"
    by simp_all
  show "\<exists>e. handler P W C q = (Inl e, [])
            \<and> authorization_failure e
            \<and> (e = H3Error 403 ''Invalid signature.''
                 \<longleftrightarrow> (\<exists>s. first_value (q_sig q) = Some s \<and> s \<noteq> []))
            \<and> handler P' W' C q = handler P W C q"
    unfolding handler_unsigned [OF *]
    by (auto simp: authorization_failure_def)
next
  assume "snd (handler P W C q) \<noteq> []"
  then show "\<exists>url' s. first_value (q_url q) = Some url' \<and> first_value (q_sig q) = Some s
               \<and> imageProxySecret C \<noteq> [] \<and> verifyImageUrl url' s (imageProxySecret C)"
    by (rule network_only_after_verification)
qed

theorem signature_checked_first_witness:
  "verification_fails example_config ''http://127.0.0.1/admin'' (Some ''bad'')
   \<and> \<not> isAllowedImageUrl node_platform ''http://127.0.0.1/admin''
   \<and> handler node_platform (simple_world public_dns evil_site) example_config
        \<lparr>q_url = Some (QString ''http://127.0.0.1/admin''), q_sig = Some (QString ''bad'')\<rparr>
      = (Inl (H3Error 403 ''Invalid signature.''), [])
   \<and> snd (handler node_platform (simple_world public_dns evil_site) example_config
            (signed_request ''https://evil.example/a.png'' ''secret'')) \<noteq> []
   \<and> verifyImageUrl ''https://evil.example/a.png''
        (signImageUrl ''https://evil.example/a.png'' ''secret'') ''secret''"
proof -
  have fails: "verification_fails example_config ''http://127.0.0.1/admin'' (Some ''bad'')"
    by (simp add: verification_fails_def verify_wrong_length)
  have guard: "\<not> isAllowedImageUrl node_platform ''http://127.0.0.1/admin''"
    by (rule allowed_loopback_url)
  have trace: "snd (handler node_platform (simple_world public_dns evil_site) example_config
            (signed_request ''https://evil.example/a.png'' ''secret'')) \<noteq> []"
    by (simp add: run_loopback_redirect)
  have verified: "verifyImageUrl ''https://evil.example/a.png''
        (signImageUrl ''https://evil.example/a.png'' ''secret'') ''secret''"
    by (simp add: verify_sign_self)
  have first: "first_value (q_url \<lparr>q_url = Some (QString ''http://127.0.0.1/admin''),
                 q_sig = Some (QString ''bad'')\<rparr>) = Some ''http://127.0.0.1/admin''"
    "first_value (q_sig \<lparr>q_url = Some (QString ''http://127.0.0.1/admin''),
                 q_sig = Some (QString ''bad'')\<rparr>) = Some ''bad''"
    by simp_all
  from fails first
    signature_checked_first [of
      "\<lparr>q_url = Some (QString ''http://127.0.0.1/admin''), q_sig = Some (QString ''bad'')\<rparr>"
      "''http://127.0.0.1/admin''" example_config node_platform
      "simple_world public_dns evil_site" node_platform "simple_world public_dns evil_site"]
  have "handler node_platform (simple_world public_dns evil_site) example_config
        \<lparr>q_url = Some (QString ''http://127.0.0.1/admin''), q_sig = Some (QString ''bad'')\<rparr>
      = (Inl (H3Error 403 ''Invalid signature.''), [])"
    by auto
  with fails guard trace verified show ?thesis
    by blast
qed

section \<open>Properties of the bounded streaming relay\<close>

lemma total_bytes_simps [simp]:
  "total_bytes [] = 0"
  "total_bytes (c # cs) = length c + total_bytes cs"
  "total_bytes (xs @ ys) = total_bytes xs + total_bytes ys"
  by (simp_all add: total_bytes_def)

lemma relay_inv_start: "relay_inv b (relay_start hwm b)"
  by (simp add: relay_inv_def relay_start_def)

lemma relay_inv_on_data:
  assumes "relay_inv b st" and "upstream_state st = Active" and "to_emit st = c # cs"
  shows "relay_inv b (on_data c (st\<lparr>to_emit := cs\<rparr>))"
proof -
  have emit: "to_emit st = c # cs" by (rule assms(3))
  from assms(1,2) show ?thesis
    unfolding relay_inv_def on_data_def Let_def
    by (auto simp: emit prefix_def)
qed

lemma relay_inv_upstream: "relay_inv b st \<Longrightarrow> relay_inv b (upstream_turn st)"
proof (cases "upstream_state st = Active \<and> flowing st")
  case False
  assume "relay_inv b st"
  with False show ?thesis by (auto simp: upstream_turn_def)
next
  case True
  assume inv: "relay_inv b st"
  show ?thesis
  proof (cases "to_emit st")
    case (Cons c cs)
    with True relay_inv_on_data [OF inv _ Cons] show ?thesis
      by (simp add: upstream_turn_def)
  next
    case Nil
    with True inv show ?thesis
      by (cases "closing st")
        (auto simp: upstream_turn_def relay_inv_def on_end_def on_error_def)
  qed
qed

lemma relay_inv_consumer: "relay_inv b st \<Longrightarrow> relay_inv b (consumer_turn st)"
  by (cases "limited_state st") (auto simp: consumer_turn_def relay_inv_def)

lemma relay_inv_step: "relay_inv b st \<Longrightarrow> relay_inv b (relay_step st turn)"
  by (cases turn) (simp_all add: relay_inv_upstream relay_inv_consumer)

lemma relay_inv_foldl: "relay_inv b st \<Longrightarrow> relay_inv b (foldl relay_step st turns)"
  by (induction turns arbitrary: st) (simp_all add: relay_inv_step)

lemma relay_inv_run: "relay_inv b (relay_run hwm b turns)"
  unfolding relay_run_def by (rule relay_inv_foldl) (rule relay_inv_start)

lemma destroyed_stays:
  "limited_state st = Destroyed err \<Longrightarrow> upstream_state st \<noteq> Active
   \<Longrightarrow> limited_state (foldl relay_step st turns) = Destroyed err"
proof (induction turns arbitrary: st)
  case Nil
  then show ?case by simp
next
  case (Cons a turns)
  have "limited_state (relay_step st a) = Destroyed err \<and> upstream_state (relay_step st a) \<noteq> Active"
    using Cons.prems by (cases a) (simp_all add: upstream_turn_def consumer_turn_def)
  then show ?case using Cons.IH [of "relay_step st a"] by simp
qed

lemma fair_schedule_Suc: "fair_schedule (Suc n) = Consumer # Upstream # fair_schedule n"
  by (simp add: fair_schedule_def)

lemma oversize_is_destroyed:
  assumes "MAX_SIZE < total_bytes (chunks b)"
  shows "relay_inv b st \<Longrightarrow> upstream_state st = Active \<Longrightarrow> length (to_emit st) \<le> n
         \<Longrightarrow> limited_state (foldl relay_step st (fair_schedule n)) = Destroyed ''Image too large''"
proof (induction n arbitrary: st)
  case 0
  then have "bytesRead st = total_bytes (chunks b)" "bytesRead st \<le> MAX_SIZE"
    by (simp_all add: relay_inv_def)
  with assms show ?case by simp
next
  case (Suc n)
  have open_: "limited_state st = Open"
    using Suc.prems(1,2) by (simp add: relay_inv_def)
  define st1 where "st1 = consumer_turn st"
  have st1: "relay_inv b st1" "upstream_state st1 = Active" "flowing st1"
    "to_emit st1 = to_emit st"
    using relay_inv_consumer [OF Suc.prems(1)] Suc.prems(2) open_
    by (simp_all add: st1_def consumer_turn_def)
  have nonempty: "to_emit st1 \<noteq> []"
  proof
    assume "to_emit st1 = []"
    with st1(1,2) have "bytesRead st1 = total_bytes (chunks b)" "bytesRead st1 \<le> MAX_SIZE"
      by (simp_all add: relay_inv_def)
    with assms show False by simp
  qed
  then obtain c cs where emit: "to_emit st1 = c # cs"
    by (cases "to_emit st1") auto
  define st2 where "st2 = upstream_turn st1"
  have st2: "st2 = on_data c (st1\<lparr>to_emit := cs\<rparr>)"
    using st1(2,3) emit by (simp add: st2_def upstream_turn_def)
  have inv2: "relay_inv b st2"
    unfolding st2_def by (rule relay_inv_upstream) (rule st1(1))
  have run: "foldl relay_step st (fair_schedule (Suc n)) = foldl relay_step st2 (fair_schedule n)"
    by (simp add: fair_schedule_Suc st1_def st2_def)
  show ?case
  proof (cases "MAX_SIZE < bytesRead st1 + length c")
    case True
    then have "limited_state st2 = Destroyed ''Image too large''" "upstream_state st2 \<noteq> Active"
      by (simp_all add: st2 on_data_def Let_def)
    then show ?thesis unfolding run by (rule destroyed_stays)
  next
    case False
    then have "upstream_state st2 = Active" "to_emit st2 = cs"
      using st1(2) by (simp_all add: st2 on_data_def Let_def)
    moreover have "length (c # cs) \<le> Suc n"
      using Suc.prems(3) st1(4) emit by metis
    then have "length cs \<le> n" by simp
    ultimately show ?thesis
      unfolding run using Suc.IH [OF inv2] by simp
  qed
qed

lemma oversize_run_is_destroyed:
  assumes "MAX_SIZE < total_bytes (chunks b)" and "length (chunks b) \<le> n"
  shows "limited_state (relay_run hwm b (fair_schedule n)) = Destroyed ''Image too large''"
  unfolding relay_run_def
  by (rule oversize_is_destroyed [OF assms(1) relay_inv_start])
    (simp_all add: relay_start_def assms(2))

text \<open>
  C1.  For every body, every buffer size and every schedule of the two sides: the
  chunks the consumer has received begin the body and hold at most \<open>MAX_SIZE\<close> bytes
  (as does everything pushed into the outbound stream); once the counter of the bytes
  read from upstream exceeds \<open>MAX_SIZE\<close>, upstream is destroyed and the outbound
  stream is destroyed with the error \<open>Image too large\<close>; and the outbound stream of a
  body larger than \<open>MAX_SIZE\<close> never ends as a success.  Moreover, when consumer
  and upstream take turns for as many rounds as the body has chunks, the outbound
  stream of such a body is destroyed with that error.
\<close>

theorem relay_is_bounded:
  "total_bytes (delivered (relay_run hwm b turns)) \<le> MAX_SIZE
   \<and> total_bytes (delivered (relay_run hwm b turns) @ buffered (relay_run hwm b turns)) \<le> MAX_SIZE
   \<and> prefix (delivered (relay_run hwm b turns)) (chunks b)
   \<and> (bytesRead (relay_run hwm b turns) > MAX_SIZE \<longrightarrow>
         upstream_state (relay_run hwm b turns) = UpstreamDestroyed
         \<and> limited_state (relay_run hwm b turns) = Destroyed ''Image too large'')
   \<and> (total_bytes (chunks b) > MAX_SIZE \<longrightarrow> limited_state (relay_run hwm b turns) \<noteq> Ended)
   \<and> (total_bytes (chunks b) > MAX_SIZE \<and> length (chunks b) \<le> n \<longrightarrow>
         limited_state (relay_run hwm b (fair_schedule n)) = Destroyed ''Image too large'')"
  using relay_inv_run [of b hwm turns] oversize_run_is_destroyed [of b n hwm]
  by (auto simp: relay_inv_def dest: append_prefixD)

lemma MAX_SIZE_value: "MAX_SIZE = 10485760"
  by (simp add: MAX_SIZE_def)

lemma run_large_body:
  "relay_run 16384 large_body [Upstream, Consumer, Upstream]
   = \<lparr>highWaterMark = 16384, bytesRead = MAX_SIZE + 1, to_emit = [], closing = EndOfBody,
      flowing = True, upstream_state = UpstreamDestroyed, buffered = [],
      limited_state = Destroyed ''Image too large'', delivered = [replicate MAX_SIZE 0]\<rparr>"
proof -
  have big: "\<not> MAX_SIZE < 16384" by (simp add: MAX_SIZE_value)
  show ?thesis
    by (simp add: relay_run_def relay_start_def large_body_def upstream_turn_def
        consumer_turn_def on_data_def Let_def big)
qed

lemma large_body_size: "total_bytes (chunks large_body) = MAX_SIZE + 1"
  by (simp add: large_body_def)

theorem relay_is_bounded_witness:
  "bytesRead (relay_run 16384 large_body [Upstream, Consumer, Upstream]) > MAX_SIZE
   \<and> total_bytes (chunks large_body) > MAX_SIZE
   \<and> length (chunks large_body) \<le> 2
   \<and> upstream_state (relay_run 16384 large_body [Upstream, Consumer, Upstream]) = UpstreamDestroyed
   \<and> limited_state (relay_run 16384 large_body [Upstream, Consumer, Upstream])
       = Destroyed ''Image too large''
   \<and> total_bytes (delivered (relay_run 16384 large_body [Upstream, Consumer, Upstream])) = MAX_SIZE
   \<and> limited_state (relay_run 16384 large_body (fair_schedule 2)) = Destroyed ''Image too large''"
proof -
  have "length (chunks large_body) \<le> 2" by (simp add: large_body_def)
  with relay_is_bounded [of 16384 large_body "[Upstream, Consumer, Upstream]" 2]
  show ?thesis
    by (simp add: run_large_body large_body_size)
qed

section \<open>Properties of the checks on the final response\<close>

text \<open>An accepted request whose first response is not a redirect goes straight to the
  checks after the loop.\<close>

lemma handler_direct:
  assumes "accepted_request P W C q url"
    and "http_fetch W (snd (resolveAndValidateHost P W [] url)) url = FetchResponse r"
    and "status r \<notin> REDIRECT_STATUSES"
  shows "handler P W C q
         = catch_block (after_loop C (Some r)
             (snd (resolveAndValidateHost P W [] url) @ [HttpFetch url]))"
  unfolding handler_accepted [OF assms(1)] try_block_def
  using assms(2,3) by (subst redirect_loop.simps) (simp add: MAX_REDIRECTS_def)

lemma after_loop_content_policy:
  assumes "status r \<notin> REDIRECT_STATUSES" and "response_ok r"
    and "\<not> startsWith (contentType_of r) ''image/'' \<or> includesStr (contentType_of r) ''svg''"
  shows "after_loop C (Some r) t
         = (Inl (H3Error 400 ''URL does not point to an allowed image type.''), cancel_body r t)"
  using assms by (auto simp: after_loop_def Let_def)

lemma example_request_accepted:
  "accepted_request node_platform (simple_world public_dns site) example_config
     (signed_request ''https://example.com/x.png'' ''secret'') ''https://example.com/x.png''"
  unfolding example_config_def
  by (rule signed_request_accepted)
    (simp_all add: allowed_example_com
      public_dns_validates [OF parse_example_com] example_com_no_address)

lemma example_request_direct:
  assumes "status r \<notin> REDIRECT_STATUSES"
  shows "handler node_platform (simple_world public_dns (image_site r)) example_config
           (signed_request ''https://example.com/x.png'' ''secret'')
         = catch_block (after_loop example_config (Some r)
             [DnsLookup ''example.com'', HttpFetch ''https://example.com/x.png''])"
  using handler_direct [OF example_request_accepted, of "image_site r" r] assms
  by (simp add: image_site_def public_dns_validates [OF parse_example_com]
      example_com_no_address)

text \<open>The scenario of the specification: a signed request whose upstream answers with
  \<open>image/svg+xml\<close> is rejected.\<close>

lemma run_svg_rejected:
  "handler node_platform
     (simple_world public_dns (image_site (image_response ''image/svg+xml'' None small_body)))
     example_config (signed_request ''https://example.com/x.png'' ''secret'')
   = (Inl (H3Error 400 ''URL does not point to an allowed image type.''),
      [DnsLookup ''example.com'', HttpFetch ''https://example.com/x.png'', BodyCancel])"
  by (subst example_request_direct)
    (simp_all add: image_response_def REDIRECT_STATUSES_def after_loop_def response_ok_def
      contentType_of_def catch_block_def cancel_body_def js_string_defs sublist_code)

text \<open>
  C8 (where the code departs from the claim).  The test for SVG is
  \<open>contentType.includes('svg')\<close>, which compares letter case, while the names of
  media types do not: an upstream that answers with the content type
  \<open>image/SVG+xml\<close> passes both tests, and the handler hands the body to
  \<open>sendStream\<close> under that content type.
\<close>

theorem uppercase_svg_is_proxied:
  "handler node_platform
     (simple_world public_dns (image_site (image_response ''image/SVG+xml'' None small_body)))
     example_config (signed_request ''https://example.com/x.png'' ''secret'')
   = (Inr \<lparr>response_headers = success_headers example_config ''image/SVG+xml'',
            upstream_body = small_body\<rparr>,
      [DnsLookup ''example.com'', HttpFetch ''https://example.com/x.png''])"
  by (subst example_request_direct)
    (simp_all add: image_response_def REDIRECT_STATUSES_def after_loop_def response_ok_def
      contentType_of_def catch_block_def declared_too_large_def js_string_defs sublist_code)

section \<open>Properties of the size limit\<close>

lemma after_loop_declared_too_large:
  assumes "status r \<notin> REDIRECT_STATUSES" and "response_ok r"
    and "startsWith (contentType_of r) ''image/''" and "\<not> includesStr (contentType_of r) ''svg''"
    and "declared_too_large (content_length r)"
  shows "after_loop C (Some r) t = (Inl (H3Error 413 ''Image too large.''), cancel_body r t)"
  using assms by (simp add: after_loop_def Let_def)

lemma after_loop_413_only_declared:
  assumes "fst (after_loop C resp t) = Inl (H3Error 413 msg)"
  shows "\<exists>r. resp = Some r \<and> declared_too_large (content_length r)"
  using assms
  by (cases resp) (auto simp: after_loop_def Let_def split: if_splits option.splits)

lemma relay_destroyed_when_exceeded:
  "bytesRead (relay_run hwm b turns) > MAX_SIZE \<Longrightarrow>
   upstream_state (relay_run hwm b turns) = UpstreamDestroyed
   \<and> limited_state (relay_run hwm b turns) = Destroyed ''Image too large''"
  using relay_inv_run [of b hwm turns] by (simp add: relay_inv_def)

lemma declared_example: "declared_too_large (Some ''10485761'')"
  by (simp add: declared_too_large_def parseInt10_def is_space_def is_digit_def
      decimal_value_def MAX_SIZE_value Let_def)

text \<open>
  C9 (as the code has it).  A final response (not a redirect, 2xx, of an allowed image
  type) whose \<open>Content-Length\<close> reads as a number above \<open>MAX_SIZE\<close> is answered with
  413 \<open>Image too large.\<close>; the body is cancelled and no relay is started, so no byte
  of it is read.  A 413 has no other origin.  When instead the streamed bytes cross
  \<open>MAX_SIZE\<close>, the handler has already returned: both streams are destroyed with the
  error \<open>Image too large\<close>, which carries no status.
\<close>

theorem size_limit_answers:
  "(status r \<notin> REDIRECT_STATUSES \<and> response_ok r
      \<and> startsWith (contentType_of r) ''image/'' \<and> \<not> includesStr (contentType_of r) ''svg''
      \<and> declared_too_large (content_length r)
     \<longrightarrow> after_loop C (Some r) t = (Inl (H3Error 413 ''Image too large.''), cancel_body r t))
   \<and> (fst (after_loop C resp t) = Inl (H3Error 413 msg)
        \<longrightarrow> (\<exists>r'. resp = Some r' \<and> declared_too_large (content_length r')))
   \<and> (bytesRead (relay_run hwm b turns) > MAX_SIZE
        \<longrightarrow> upstream_state (relay_run hwm b turns) = UpstreamDestroyed
            \<and> limited_state (relay_run hwm b turns) = Destroyed ''Image too large'')"
  using after_loop_declared_too_large [of r C t] after_loop_413_only_declared [of C resp t msg]
    relay_destroyed_when_exceeded [of hwm b turns]
  by blast

theorem size_limit_answers_witness:
  "declared_too_large (content_length (image_response ''image/png'' (Some ''10485761'') small_body))
   \<and> handler node_platform
        (simple_world public_dns
           (image_site (image_response ''image/png'' (Some ''10485761'') small_body)))
        example_config (signed_request ''https://example.com/x.png'' ''secret'')
      = (Inl (H3Error 413 ''Image too large.''),
         [DnsLookup ''example.com'', HttpFetch ''https://example.com/x.png'', BodyCancel])
   \<and> bytesRead (relay_run 16384 large_body [Upstream, Consumer, Upstream]) > MAX_SIZE
   \<and> limited_state (relay_run 16384 large_body [Upstream, Consumer, Upstream])
       = Destroyed ''Image too large''"
proof -
  let ?r = "image_response ''image/png'' (Some ''10485761'') small_body"
  let ?t = "[DnsLookup ''example.com'', HttpFetch ''https://example.com/x.png'']"
  have r: "status ?r \<notin> REDIRECT_STATUSES" "response_ok ?r"
    "startsWith (contentType_of ?r) ''image/''" "\<not> includesStr (contentType_of ?r) ''svg''"
    "declared_too_large (content_length ?r)"
    by (simp_all add: image_response_def REDIRECT_STATUSES_def response_ok_def
        contentType_of_def declared_example)
  have run: "handler node_platform (simple_world public_dns (image_site ?r)) example_config
               (signed_request ''https://example.com/x.png'' ''secret'')
             = catch_block (after_loop example_config (Some ?r) ?t)"
    by (rule example_request_direct) (rule r(1))
  from r run
    size_limit_answers [of ?r example_config ?t "Some ?r" "''Image too large.''" 16384
      large_body "[Upstream, Consumer, Upstream]"]
  show ?thesis
    by (simp add: catch_block_def cancel_body_def image_response_def run_large_body)
qed

text \<open>
  C9 as stated fails for the streamed size: an image of \<open>MAX_SIZE + 1\<close> bytes without
  \<open>Content-Length\<close> is answered with the headers of a success, and the relay then
  destroys the stream; no 413 is sent.
\<close>

theorem size_limit_answers_counterexample:
  "handler node_platform
     (simple_world public_dns (image_site (image_response ''image/png'' None large_body)))
     example_config (signed_request ''https://example.com/x.png'' ''secret'')
   = (Inr \<lparr>response_headers = success_headers example_config ''image/png'',
            upstream_body = large_body\<rparr>,
      [DnsLookup ''example.com'', HttpFetch ''https://example.com/x.png''])
   \<and> MAX_SIZE < total_bytes (chunks large_body)
   \<and> limited_state (relay_run 16384 large_body [Upstream, Consumer, Upstream])
       = Destroyed ''Image too large''"
proof -
  have "handler node_platform
     (simple_world public_dns (image_site (image_response ''image/png'' None large_body)))
     example_config (signed_request ''https://example.com/x.png'' ''secret'')
   = (Inr \<lparr>response_headers = success_headers example_config ''image/png'',
            upstream_body = large_body\<rparr>,
      [DnsLookup ''example.com'', HttpFetch ''https://example.com/x.png''])"
    by (subst example_request_direct)
      (simp_all add: image_response_def REDIRECT_STATUSES_def after_loop_def response_ok_def
        contentType_of_def catch_block_def declared_too_large_def)
  then show ?thesis
    by (simp add: run_large_body large_body_size)
qed

section \<open>Properties of the proxied URLs\<close>

text \<open>
  C10 (as the code has it).  \<open>toProxiedImageUrl\<close> reads a URL \<open>//rest\<close> as
  \<open>https://rest\<close>: it is that URL which is parsed, tested for a trusted domain,
  signed and put into the proxy URL; when it does not parse as \<open>http\<close> or \<open>https\<close>
  the URL is returned as it was given.
\<close>

theorem protocol_relative_proxied:
  "toProxiedImageUrl P (''//'' @ rest) secret =
     (case url_parse P (''https://'' @ rest) of
        None \<Rightarrow> ''//'' @ rest
      | Some parsed \<Rightarrow>
          if protocol parsed = ''http:'' \<or> protocol parsed = ''https:''
          then
            (if isTrustedImageDomain P (''https://'' @ rest) then ''https://'' @ rest
             else ''/api/registry/image-proxy?url='' @ encodeURIComponent (''https://'' @ rest)
                    @ ''&sig='' @ signImageUrl (''https://'' @ rest) secret)
          else ''//'' @ rest)"
  by (simp add: toProxiedImageUrl_def startsWith_def Let_def split: option.splits)

lemma protocol_relative_like_https:
  assumes "url_parse P (''https://'' @ rest) = Some parsed"
    and "protocol parsed = ''http:'' \<or> protocol parsed = ''https:''"
  shows "toProxiedImageUrl P (''//'' @ rest) secret = toProxiedImageUrl P (''https://'' @ rest) secret"
  using assms by (auto simp: toProxiedImageUrl_def startsWith_def Let_def)

lemma parse_protocol_relative: "node_url_parse ''//example.com/x.png'' = None"
  by (simp add: js_string_defs node_url_defs Let_def)

text \<open>
  C10 as stated fails where the handler classifies URLs: \<open>isAllowedImageUrl\<close> parses
  the URL as it is given, so it refuses \<open>//example.com/x.png\<close> although it allows
  \<open>https://example.com/x.png\<close>; and a redirect from \<open>http://a.example/a.png\<close> to
  \<open>//cdn.example/b.png\<close> is resolved against the current URL, validated and fetched
  as \<open>http://cdn.example/b.png\<close>.
\<close>

theorem protocol_relative_proxied_counterexample:
  "isAllowedImageUrl node_platform ''https://example.com/x.png''
   \<and> \<not> isAllowedImageUrl node_platform ''//example.com/x.png''
   \<and> url_resolve node_platform ''//cdn.example/b.png'' ''http://a.example/a.png''
       = Some ''http://cdn.example/b.png''
   \<and> snd (handler node_platform (simple_world public_dns relative_site) example_config
            (signed_request ''http://a.example/a.png'' ''secret''))
       = [DnsLookup ''a.example'', HttpFetch ''http://a.example/a.png'',
          DnsLookup ''cdn.example'', HttpFetch ''http://cdn.example/b.png'']"
proof -
  have "\<not> isAllowedImageUrl node_platform ''//example.com/x.png''"
    by (simp add: isAllowedImageUrl_def parse_protocol_relative)
  with allowed_example_com show ?thesis
    by (simp add: resolve_site_locations run_relative_redirect)
qed

end
